theory Spec2Isabelle
  imports Main
begin

section \<open>Shared data of the supervisor variants\<close>

text \<open>
  The repository holds several historical variants of one supervisor for the Sing-Box
  child process. Two of them serve gRPC calls: \<^verbatim>\<open>src/cmd/main.go\<close> (definitions with the
  suffix \<open>_main\<close>) and the variant with a levelled logger, \<^verbatim>\<open>src/unnamed/part_002\<close>
  (suffix \<open>_p2\<close>). Two are driven by a polled command file: \<^verbatim>\<open>src/unnamed/part_003\<close>
  (suffix \<open>_p3\<close>) and the first program of \<^verbatim>\<open>src/cmd/oblivion-helper.go\<close> (suffix \<open>_oh\<close>).

  Everything the operating system decides (file contents, whether a spawn or a kill
  succeeds, how the child exits) is an explicit input of the model. Every call returns
  its result, the new state, and the list of effects it performed, in order.
\<close>

type_synonym pid = nat

text \<open>gRPC status codes used by the handlers.\<close>

datatype code = AlreadyExists | NotFound | Internal | InvalidArgument | FailedPrecondition | Aborted

text \<open>
  \<open>Status c m\<close> is \<^verbatim>\<open>status.Error(c, m)\<close> with the format string \<open>m\<close> of the source;
  \<open>Plain m\<close> is an error of another package (\<^verbatim>\<open>fmt.Errorf\<close>, \<^verbatim>\<open>os\<close>, \<^verbatim>\<open>os/exec\<close>,
  \<^verbatim>\<open>encoding/json\<close>, the stream's context), named by its origin.
\<close>

datatype error = Status code string | Plain string

text \<open>A call returns normally, returns an error, or panics on a nil dereference.\<close>

datatype result = Success | Failure error | Panic

datatype level = INFO | WARN | ERROR | PLAIN

text \<open>
  Effects on the outside world: \<open>Spawn path argv r\<close> is \<^verbatim>\<open>exec.Cmd.Start\<close> with its outcome
  (\<open>Some p\<close>: a new OS process \<open>p\<close>), \<open>Kill p ok\<close> is \<^verbatim>\<open>Process.Kill\<close>, \<open>Signal p ok\<close> is
  \<^verbatim>\<open>Process.Signal(SIGTERM)\<close>, \<open>Go f\<close> launches a goroutine, \<open>Run name args ok\<close> is
  \<^verbatim>\<open>exec.Command(name, args...).Run()\<close>, \<open>ExitAfter d\<close> schedules
  \<^verbatim>\<open>os.Exit(0)\<close> after \<open>d\<close> nanoseconds, \<open>OsExit\<close> is an immediate \<^verbatim>\<open>os.Exit(0)\<close>.
\<close>

datatype effect =
    Spawn string "string list" "pid option"
  | Kill pid bool
  | Signal pid bool
  | Log level string
  | Go string
  | Run string "string list" bool
  | ExitAfter nat
  | OsExit

text \<open>\<^verbatim>\<open>exec.Cmd\<close>: its \<^verbatim>\<open>Process\<close> field is nil until \<^verbatim>\<open>Start\<close> has succeeded.\<close>

record Cmd =
  Path :: string
  Args :: "string list"
  Process :: "pid option"

text \<open>How a child process ended, as \<^verbatim>\<open>os.ProcessState\<close> reports it.\<close>

datatype exit_status = Exited nat | Signaled nat

text \<open>
  \<^verbatim>\<open>exec.Cmd.Wait\<close> on a started process returns nil exactly when the process exited
  with status 0, and an \<^verbatim>\<open>*ExitError\<close> otherwise.
\<close>

fun Cmd_Wait :: "exit_status \<Rightarrow> error option" where
  "Cmd_Wait (Exited n) = (if n = 0 then None else Some (Plain ''exit status''))"
| "Cmd_Wait (Signaled n) = Some (Plain ''signal'')"

text \<open>
  \<^verbatim>\<open>filepath.Join\<close> of a directory and a name. Empty elements are ignored as in Go; the
  lexical cleaning of the result (\<^verbatim>\<open>filepath.Clean\<close>) is not modelled.
\<close>

definition filepath_Join :: "string \<Rightarrow> string \<Rightarrow> string" where
  "filepath_Join d f = (if d = [] then f else if f = [] then d else d @ ''/'' @ f)"

definition Second :: nat where
  "Second = 1000000000"

section \<open>The gRPC supervisors\<close>

record Config =
  SbConfig :: string
  SbBin :: string

text \<open>
  \<^verbatim>\<open>Server\<close>: the buffered channel \<^verbatim>\<open>statusChange\<close> is the list of the values queued in
  it, oldest first. The mutex is not a field: \<^verbatim>\<open>Start\<close>, \<^verbatim>\<open>Stop\<close> and the monitor hold it
  for their whole body, so each of them is one indivisible step. \<^verbatim>\<open>Exit\<close> tests
  \<^verbatim>\<open>s.running\<close> without the mutex: \<open>Exit_main\<close> and \<open>Exit_p2\<close> below are the calls
  run without interruption, and \<open>Exit_interleaved_main\<close> and \<open>Exit_interleaved_p2\<close>, after
  the runs, let other calls happen between the test and the stop.
\<close>

record Server =
  running :: bool
  statusChange :: "string list"
  dirPath :: string
  config :: Config
  sbProcess :: "Cmd option"

text \<open>
  What the operating system answers during one call. \<open>stat_not_exist p\<close> is
  \<^verbatim>\<open>os.IsNotExist\<close> of the error of \<^verbatim>\<open>os.Stat(p)\<close>; \<open>read_file p\<close> is \<^verbatim>\<open>os.ReadFile\<close>
  (\<open>None\<close>: an error); \<open>unmarshal data c\<close> is \<^verbatim>\<open>json.Unmarshal(data, &c)\<close>: whether it
  returned nil, and the struct as it left it (a failed decode may have stored some fields);
  \<open>cmd_start path argv\<close> is \<^verbatim>\<open>exec.Cmd.Start\<close>; \<open>proc_kill p\<close> is \<^verbatim>\<open>Process.Kill\<close>
  (\<open>True\<close>: nil error).
\<close>

record Env =
  stat_not_exist :: "string \<Rightarrow> bool"
  read_file :: "string \<Rightarrow> string option"
  unmarshal :: "string \<Rightarrow> Config \<Rightarrow> bool \<times> Config"
  cmd_start :: "string \<Rightarrow> string list \<Rightarrow> pid option"
  proc_kill :: "pid \<Rightarrow> bool"

definition configFileName :: string where
  "configFileName = ''config.obv''"

text \<open>\<^verbatim>\<open>NewServer\<close>, for a channel that starts empty.\<close>

definition NewServer :: "string \<Rightarrow> Server" where
  "NewServer execDir =
     \<lparr>running = False, statusChange = [], dirPath = execDir,
      config = \<lparr>SbConfig = [], SbBin = []\<rparr>, sbProcess = None\<rparr>"

subsection \<open>src/cmd/main.go\<close>

definition statusChannelCap_main :: nat where
  "statusChannelCap_main = 10"

text \<open>The non-blocking send: a full channel drops the update.\<close>

definition broadcastStatus_main :: "string \<Rightarrow> Server \<Rightarrow> Server \<times> effect list" where
  "broadcastStatus_main status s =
     (if length (statusChange s) < statusChannelCap_main
      then (s\<lparr>statusChange := statusChange s @ [status]\<rparr>, [])
      else (s, [Log PLAIN ''broadcastStatus: Status channel full, dropping update'']))"

definition loadConfig_main :: "Env \<Rightarrow> Server \<Rightarrow> error option \<times> Server" where
  "loadConfig_main env s =
     (let configPath = filepath_Join (dirPath s) configFileName in
      case read_file env configPath of
        None \<Rightarrow> (Some (Plain ''failed to read config file: %w''), s)
      | Some data \<Rightarrow>
          (case unmarshal env data (config s) of
             (ok, c) \<Rightarrow> (if ok then None else Some (Plain ''json''), s\<lparr>config := c\<rparr>)))"

definition startSingBox_main :: "Env \<Rightarrow> Server \<Rightarrow> error option \<times> Server \<times> effect list" where
  "startSingBox_main env s =
     (let sbBinPath = filepath_Join (dirPath s) (SbBin (config s));
          sbConfigPath = filepath_Join (dirPath s) (SbConfig (config s));
          argv = [sbBinPath, ''run'', ''-c'', sbConfigPath];
          r = cmd_start env sbBinPath argv;
          s1 = s\<lparr>sbProcess := Some \<lparr>Path = sbBinPath, Args = argv, Process = r\<rparr>\<rparr>
      in case r of
           None \<Rightarrow> (Some (Plain ''exec''), s1, [Spawn sbBinPath argv None])
         | Some p \<Rightarrow>
             (case broadcastStatus_main ''started'' (s1\<lparr>running := True\<rparr>) of
                (s2, fx) \<Rightarrow>
                  (None, s2,
                   [Spawn sbBinPath argv (Some p)] @ fx
                     @ [Log PLAIN ''Sing-Box started'', Go ''monitorProcess''])))"

definition Start_main :: "Env \<Rightarrow> Server \<Rightarrow> result \<times> Server \<times> effect list" where
  "Start_main env s =
     (if running s
      then (Failure (Status AlreadyExists ''Sing-Box is already running''), s, [])
      else case loadConfig_main env s of
             (Some e, s1) \<Rightarrow>
               (Failure (Status FailedPrecondition ''Failed to load config: %v''), s1, [])
           | (None, s1) \<Rightarrow>
               (case startSingBox_main env s1 of
                  (Some e, s2, fx) \<Rightarrow>
                    (Failure (Status Internal ''Failed to start Sing-Box: %v''), s2, fx)
                | (None, s2, fx) \<Rightarrow> (Success, s2, fx)))"

text \<open>
  \<^verbatim>\<open>monitorProcess\<close>, from the return of \<^verbatim>\<open>Wait\<close> on: the argument is how the child
  ended.
\<close>

definition monitorProcess_main :: "exit_status \<Rightarrow> Server \<Rightarrow> Server \<times> effect list" where
  "monitorProcess_main st s =
     (let err = Cmd_Wait st in
      if err \<noteq> None \<and> (running s \<or> sbProcess s \<noteq> None)
      then (case broadcastStatus_main ''stopped'' (s\<lparr>running := False, sbProcess := None\<rparr>) of
              (s1, fx) \<Rightarrow> (s1, [Log PLAIN ''Sing-Box exited unexpectedly: %v''] @ fx))
      else (s, []))"

text \<open>\<^verbatim>\<open>s.sbProcess.Process.Kill()\<close> dereferences both pointers.\<close>

definition stopSingBox_main :: "Env \<Rightarrow> Server \<Rightarrow> result \<times> Server \<times> effect list" where
  "stopSingBox_main env s =
     (case sbProcess s of
        None \<Rightarrow> (Panic, s, [])
      | Some c \<Rightarrow>
          (case Process c of
             None \<Rightarrow> (Panic, s, [])
           | Some p \<Rightarrow>
               if \<not> proc_kill env p then (Failure (Plain ''kill''), s, [Kill p False])
               else (case broadcastStatus_main ''stopped'' (s\<lparr>sbProcess := None, running := False\<rparr>) of
                       (s1, fx) \<Rightarrow>
                         (Success, s1, [Kill p True] @ fx @ [Log PLAIN ''Sing-Box stopped'']))))"

definition Stop_main :: "Env \<Rightarrow> Server \<Rightarrow> result \<times> Server \<times> effect list" where
  "Stop_main env s =
     (if \<not> running s
      then (Failure (Status FailedPrecondition ''Sing-Box is not running''), s, [])
      else case stopSingBox_main env s of
             (Failure e, s1, fx) \<Rightarrow>
               (Failure (Status Internal ''Failed to stop Sing-Box: %v''), s1, fx)
           | (r, s1, fx) \<Rightarrow> (r, s1, fx))"

definition Exit_main :: "Env \<Rightarrow> Server \<Rightarrow> result \<times> Server \<times> effect list" where
  "Exit_main env s =
     (case broadcastStatus_main ''exited'' s of
        (s1, fx1) \<Rightarrow>
          (let pre = [Log PLAIN ''Received exit command''] @ fx1 in
           if running s1
           then (case stopSingBox_main env s1 of
                   (Panic, s2, fx2) \<Rightarrow> (Panic, s2, pre @ fx2)
                 | (Failure e, s2, fx2) \<Rightarrow>
                     (Success, s2,
                      pre @ fx2 @ [Log PLAIN ''Error stopping Sing-Box: %v'', ExitAfter (1000 * 1000000)])
                 | (Success, s2, fx2) \<Rightarrow> (Success, s2, pre @ fx2 @ [ExitAfter (1000 * 1000000)]))
           else (Success, s1, pre @ [ExitAfter (1000 * 1000000)])))"

text \<open>
  \<^verbatim>\<open>StreamStatus\<close> ranges over the channel. The list is what the channel delivers to
  this call, in order: \<open>Value v ok\<close> is a received value \<open>v\<close>, with \<open>ok\<close> telling whether
  \<^verbatim>\<open>stream.Send\<close> succeeds should the value be sent; \<open>Closed\<close> is the closed channel. The
  first component of the result is the list of the values sent to the client; the second
  is the returned value, or \<open>None\<close> while the call is still blocked on the channel.
\<close>

datatype chan_event = Value string bool | Closed

fun StreamStatus_loop_main :: "string \<Rightarrow> chan_event list \<Rightarrow> string list \<times> result option \<times> effect list" where
  "StreamStatus_loop_main lastStatus [] = ([], None, [])"
| "StreamStatus_loop_main lastStatus (Closed # es) = ([], Some Success, [])"
| "StreamStatus_loop_main lastStatus (Value status ok # es) =
     (if status = lastStatus then StreamStatus_loop_main lastStatus es
      else if \<not> ok
      then ([], Some (Failure (Plain ''send'')), [Log PLAIN ''Error streaming status: %v''])
      else (case StreamStatus_loop_main status es of
              (sent, r, fx) \<Rightarrow> (status # sent, r, fx)))"

definition StreamStatus_main :: "chan_event list \<Rightarrow> string list \<times> result option \<times> effect list" where
  "StreamStatus_main es = StreamStatus_loop_main [] es"

subsection \<open>src/unnamed/part_002\<close>

definition statusChannelCap :: nat where
  "statusChannelCap = 100"

definition gracefulShutdownTimeout :: nat where
  "gracefulShutdownTimeout = 5 * Second"

definition broadcastStatus_p2 :: "string \<Rightarrow> Server \<Rightarrow> Server \<times> effect list" where
  "broadcastStatus_p2 status s =
     (if length (statusChange s) < statusChannelCap
      then (s\<lparr>statusChange := statusChange s @ [status]\<rparr>, [])
      else (s, [Log WARN ''Status channel full, dropping update'']))"

definition loadConfig_p2 :: "Env \<Rightarrow> Server \<Rightarrow> error option \<times> Server" where
  "loadConfig_p2 env s =
     (let configPath = filepath_Join (dirPath s) configFileName in
      if stat_not_exist env configPath
      then (Some (Status NotFound ''configuration file not found at %s''), s)
      else case read_file env configPath of
             None \<Rightarrow> (Some (Status Internal ''failed to read config file: %v''), s)
           | Some data \<Rightarrow>
               (case unmarshal env data (config s) of
                  (ok, c) \<Rightarrow>
                    (if ok then None
                     else Some (Status InvalidArgument ''failed to parse config: %v''),
                     s\<lparr>config := c\<rparr>)))"

definition startSingBox_p2 :: "Env \<Rightarrow> Server \<Rightarrow> error option \<times> Server \<times> effect list" where
  "startSingBox_p2 env s =
     (if running s then (Some (Status AlreadyExists ''Sing-Box is already running''), s, [])
      else case loadConfig_p2 env s of
             (Some e, s0) \<Rightarrow> (Some e, s0, [])
           | (None, s0) \<Rightarrow>
               (let sbBinPath = filepath_Join (dirPath s0) (SbBin (config s0));
                    sbConfigPath = filepath_Join (dirPath s0) (SbConfig (config s0))
                in if stat_not_exist env sbBinPath
                   then (Some (Status NotFound ''Sing-Box binary not found at %s''), s0, [])
                   else if stat_not_exist env sbConfigPath
                   then (Some (Status NotFound ''Sing-Box config not found at %s''), s0, [])
                   else
                     (let argv = [sbBinPath, ''run'', ''-c'', sbConfigPath];
                          r = cmd_start env sbBinPath argv;
                          s1 = s0\<lparr>sbProcess := Some \<lparr>Path = sbBinPath, Args = argv, Process = r\<rparr>\<rparr>
                      in case r of
                           None \<Rightarrow>
                             (Some (Status Internal ''failed to start Sing-Box: %v''), s1,
                              [Spawn sbBinPath argv None])
                         | Some p \<Rightarrow>
                             (case broadcastStatus_p2 ''started'' (s1\<lparr>running := True\<rparr>) of
                                (s2, fx) \<Rightarrow>
                                  (None, s2,
                                   [Spawn sbBinPath argv (Some p)] @ fx
                                     @ [Log INFO ''Sing-Box started'', Go ''monitorProcess''])))))"

definition monitorProcess_p2 :: "exit_status \<Rightarrow> Server \<Rightarrow> Server \<times> effect list" where
  "monitorProcess_p2 st s =
     (let err = Cmd_Wait st in
      if err \<noteq> None \<and> (running s \<or> sbProcess s \<noteq> None)
      then (case broadcastStatus_p2 ''terminated'' (s\<lparr>running := False, sbProcess := None\<rparr>) of
              (s1, fx) \<Rightarrow> (s1, [Log ERROR ''Sing-Box exited unexpectedly: %v''] @ fx))
      else (s, []))"

definition stopSingBox_p2 :: "Env \<Rightarrow> Server \<Rightarrow> result \<times> Server \<times> effect list" where
  "stopSingBox_p2 env s =
     (if \<not> running s
      then (Failure (Status FailedPrecondition ''Sing-Box is not running''), s, [])
      else case sbProcess s of
             None \<Rightarrow> (Panic, s, [])
           | Some c \<Rightarrow>
               (case Process c of
                  None \<Rightarrow> (Panic, s, [])
                | Some p \<Rightarrow>
                    if \<not> proc_kill env p
                    then (Failure (Status Internal ''failed to stop Sing-Box: %v''), s, [Kill p False])
                    else (case broadcastStatus_p2 ''stopped'' (s\<lparr>sbProcess := None, running := False\<rparr>) of
                            (s1, fx) \<Rightarrow>
                              (Success, s1, [Kill p True] @ fx @ [Log INFO ''Sing-Box stopped'']))))"

definition Start_p2 :: "Env \<Rightarrow> Server \<Rightarrow> result \<times> Server \<times> effect list" where
  "Start_p2 env s =
     (case startSingBox_p2 env s of
        (Some e, s1, fx) \<Rightarrow> (Failure e, s1, fx @ [Log ERROR ''Start error: %v''])
      | (None, s1, fx) \<Rightarrow> (Success, s1, fx))"

definition Stop_p2 :: "Env \<Rightarrow> Server \<Rightarrow> result \<times> Server \<times> effect list" where
  "Stop_p2 env s =
     (case stopSingBox_p2 env s of
        (Failure e, s1, fx) \<Rightarrow> (Failure e, s1, fx @ [Log ERROR ''Stop error: %v''])
      | (r, s1, fx) \<Rightarrow> (r, s1, fx))"

definition Exit_p2 :: "Env \<Rightarrow> Server \<Rightarrow> result \<times> Server \<times> effect list" where
  "Exit_p2 env s =
     (let pre = [Log INFO ''Exiting Oblivion-Helper...''] in
      if running s
      then (case stopSingBox_p2 env s of
              (Panic, s1, fx) \<Rightarrow> (Panic, s1, pre @ fx)
            | (Failure e, s1, fx) \<Rightarrow>
                (Success, s1,
                 pre @ fx @ [Log ERROR ''Exit stop error: %v'', ExitAfter gracefulShutdownTimeout])
            | (Success, s1, fx) \<Rightarrow> (Success, s1, pre @ fx @ [ExitAfter gracefulShutdownTimeout]))
      else (Success, s, pre @ [ExitAfter gracefulShutdownTimeout]))"

text \<open>
  \<^verbatim>\<open>StreamStatus\<close> selects between the stream's context and the channel. The list is
  the branch taken at each iteration: \<open>CtxDone\<close>, or a channel event as above. When the
  context is done and a value is pending, Go's \<^verbatim>\<open>select\<close> may take either branch, so a
  cancelled stream is any list, not only one that starts with \<open>CtxDone\<close>. The server
  state is read in the \<open>CtxDone\<close> branch only, so the argument is the state at that moment.
\<close>

datatype select_event = CtxDone | FromChan chan_event

fun StreamStatus_loop_p2 ::
  "Env \<Rightarrow> string \<Rightarrow> select_event list \<Rightarrow> Server
    \<Rightarrow> string list \<times> result option \<times> Server \<times> effect list" where
  "StreamStatus_loop_p2 env lastStatus [] s = ([], None, s, [])"
| "StreamStatus_loop_p2 env lastStatus (CtxDone # es) s =
     (let pre = [Log WARN ''Stream closed by client''] in
      if running s
      then (case stopSingBox_p2 env s of
              (Panic, s1, fx) \<Rightarrow> ([], Some Panic, s1, pre @ fx)
            | (Failure e, s1, fx) \<Rightarrow>
                ([], Some (Failure (Status Aborted ''failed to stop service during stream closure: %v'')),
                 s1, pre @ fx @ [Log ERROR ''Stream stop error: %v''])
            | (Success, s1, fx) \<Rightarrow> ([], Some (Failure (Plain ''context'')), s1, pre @ fx))
      else ([], Some (Failure (Plain ''context'')), s, pre))"
| "StreamStatus_loop_p2 env lastStatus (FromChan Closed # es) s =
     ([], Some Success, s, [Log WARN ''Status channel closed''])"
| "StreamStatus_loop_p2 env lastStatus (FromChan (Value status ok) # es) s =
     (if status = lastStatus then StreamStatus_loop_p2 env lastStatus es s
      else if \<not> ok
      then ([], Some (Failure (Plain ''send'')), s, [Log ERROR ''Status stream error: %v''])
      else (case StreamStatus_loop_p2 env status es s of
              (sent, r, s1, fx) \<Rightarrow> (status # sent, r, s1, fx)))"

definition StreamStatus_p2 ::
  "Env \<Rightarrow> select_event list \<Rightarrow> Server \<Rightarrow> string list \<times> result option \<times> Server \<times> effect list" where
  "StreamStatus_p2 env es s = StreamStatus_loop_p2 env [] es s"

subsection \<open>Runs of the two servers\<close>

text \<open>
  One step of a server: a gRPC call, the monitor goroutine waking up after \<^verbatim>\<open>Wait\<close>
  returned, a subscriber taking the oldest value out of the channel, or a subscriber's
  stream being cancelled. \<^verbatim>\<open>StreamStatus\<close> of \<^verbatim>\<open>src/cmd/main.go\<close> does not look at the
  stream's context, so a cancellation changes nothing there.
\<close>

datatype call =
    CallStart Env
  | CallStop Env
  | CallExit Env
  | MonitorWakes exit_status
  | SubscriberReceives
  | StreamCancelled Env

definition receive :: "Server \<Rightarrow> Server" where
  "receive s = (case statusChange s of [] \<Rightarrow> s | v # vs \<Rightarrow> s\<lparr>statusChange := vs\<rparr>)"

fun step_main :: "call \<Rightarrow> Server \<Rightarrow> result \<times> Server \<times> effect list" where
  "step_main (CallStart env) s = Start_main env s"
| "step_main (CallStop env) s = Stop_main env s"
| "step_main (CallExit env) s = Exit_main env s"
| "step_main (MonitorWakes st) s = (case monitorProcess_main st s of (s1, fx) \<Rightarrow> (Success, s1, fx))"
| "step_main SubscriberReceives s = (Success, receive s, [])"
| "step_main (StreamCancelled env) s = (Success, s, [])"

fun step_p2 :: "call \<Rightarrow> Server \<Rightarrow> result \<times> Server \<times> effect list" where
  "step_p2 (CallStart env) s = Start_p2 env s"
| "step_p2 (CallStop env) s = Stop_p2 env s"
| "step_p2 (CallExit env) s = Exit_p2 env s"
| "step_p2 (MonitorWakes st) s = (case monitorProcess_p2 st s of (s1, fx) \<Rightarrow> (Success, s1, fx))"
| "step_p2 SubscriberReceives s = (Success, receive s, [])"
| "step_p2 (StreamCancelled env) s =
     (case StreamStatus_p2 env [CtxDone] s of
        (sent, Some r, s1, fx) \<Rightarrow> (r, s1, fx)
      | (sent, None, s1, fx) \<Rightarrow> (Success, s1, fx))"

text \<open>A run is a sequence of steps; a panic crashes the server (\<open>None\<close>).\<close>

fun run_main :: "call list \<Rightarrow> Server \<Rightarrow> Server option" where
  "run_main [] s = Some s"
| "run_main (c # cs) s =
     (case step_main c s of (Panic, s1, fx) \<Rightarrow> None | (r, s1, fx) \<Rightarrow> run_main cs s1)"

fun run_p2 :: "call list \<Rightarrow> Server \<Rightarrow> Server option" where
  "run_p2 [] s = Some s"
| "run_p2 (c # cs) s =
     (case step_p2 c s of (Panic, s1, fx) \<Rightarrow> None | (r, s1, fx) \<Rightarrow> run_p2 cs s1)"

subsection \<open>Exit interleaved with other calls\<close>

text \<open>
  \<^verbatim>\<open>Exit\<close> of \<^verbatim>\<open>src/cmd/main.go\<close> never takes the mutex, and neither does the signal path
  of \<^verbatim>\<open>main\<close> (\<^verbatim>\<open>if server.running { server.stopSingBox() }\<close>), which has the same shape.
  Other calls can therefore run between the test of \<^verbatim>\<open>s.running\<close> and the call of
  \<^verbatim>\<open>stopSingBox\<close>. \<open>Exit_check_main\<close> is \<^verbatim>\<open>Exit\<close> up to and including the test, with the
  value it read; \<open>Exit_finish_main\<close> is \<^verbatim>\<open>Exit\<close> from there on; \<open>Exit_interleaved_main\<close>
  runs the calls \<open>between\<close> in the gap. The effects returned are those of \<^verbatim>\<open>Exit\<close> itself.
\<close>

definition Exit_check_main :: "Server \<Rightarrow> bool \<times> Server \<times> effect list" where
  "Exit_check_main s =
     (case broadcastStatus_main ''exited'' s of
        (s1, fx1) \<Rightarrow> (running s1, s1, [Log PLAIN ''Received exit command''] @ fx1))"

definition Exit_finish_main :: "Env \<Rightarrow> bool \<Rightarrow> Server \<Rightarrow> result \<times> Server \<times> effect list" where
  "Exit_finish_main env wasRunning s =
     (if wasRunning
      then (case stopSingBox_main env s of
              (Panic, s2, fx2) \<Rightarrow> (Panic, s2, fx2)
            | (Failure e, s2, fx2) \<Rightarrow>
                (Success, s2,
                 fx2 @ [Log PLAIN ''Error stopping Sing-Box: %v'', ExitAfter (1000 * 1000000)])
            | (Success, s2, fx2) \<Rightarrow> (Success, s2, fx2 @ [ExitAfter (1000 * 1000000)]))
      else (Success, s, [ExitAfter (1000 * 1000000)]))"

definition Exit_interleaved_main ::
  "Env \<Rightarrow> call list \<Rightarrow> Server \<Rightarrow> result \<times> Server \<times> effect list" where
  "Exit_interleaved_main env between s =
     (case Exit_check_main s of
        (wasRunning, s1, pre) \<Rightarrow>
          (case run_main between s1 of
             None \<Rightarrow> (Panic, s1, pre)
           | Some s2 \<Rightarrow>
               (case Exit_finish_main env wasRunning s2 of
                  (r, s3, fx) \<Rightarrow> (r, s3, pre @ fx))))"

text \<open>
  \<^verbatim>\<open>Exit\<close> of part_002 tests \<^verbatim>\<open>s.running\<close> without the mutex too, but its
  \<^verbatim>\<open>stopSingBox\<close> takes the mutex and tests \<^verbatim>\<open>s.running\<close> again.
\<close>

definition Exit_check_p2 :: "Server \<Rightarrow> bool \<times> Server \<times> effect list" where
  "Exit_check_p2 s = (running s, s, [Log INFO ''Exiting Oblivion-Helper...''])"

definition Exit_finish_p2 :: "Env \<Rightarrow> bool \<Rightarrow> Server \<Rightarrow> result \<times> Server \<times> effect list" where
  "Exit_finish_p2 env wasRunning s =
     (if wasRunning
      then (case stopSingBox_p2 env s of
              (Panic, s1, fx) \<Rightarrow> (Panic, s1, fx)
            | (Failure e, s1, fx) \<Rightarrow>
                (Success, s1,
                 fx @ [Log ERROR ''Exit stop error: %v'', ExitAfter gracefulShutdownTimeout])
            | (Success, s1, fx) \<Rightarrow> (Success, s1, fx @ [ExitAfter gracefulShutdownTimeout]))
      else (Success, s, [ExitAfter gracefulShutdownTimeout]))"

definition Exit_interleaved_p2 ::
  "Env \<Rightarrow> call list \<Rightarrow> Server \<Rightarrow> result \<times> Server \<times> effect list" where
  "Exit_interleaved_p2 env between s =
     (case Exit_check_p2 s of
        (wasRunning, s1, pre) \<Rightarrow>
          (case run_p2 between s1 of
             None \<Rightarrow> (Panic, s1, pre)
           | Some s2 \<Rightarrow>
               (case Exit_finish_p2 env wasRunning s2 of
                  (r, s3, fx) \<Rightarrow> (r, s3, pre @ fx))))"

subsection \<open>Concrete inputs\<close>

text \<open>
  An environment in which everything succeeds, and ones in which the configuration file
  is missing, is unreadable, does not parse, and in which the kill fails.
\<close>

definition env_ok :: Env where
  "env_ok =
     \<lparr>stat_not_exist = (\<lambda>p. False),
      read_file = (\<lambda>p. Some ''{}''),
      unmarshal = (\<lambda>d c. (True, \<lparr>SbConfig = ''sb.json'', SbBin = ''sing-box''\<rparr>)),
      cmd_start = (\<lambda>p a. Some 7),
      proc_kill = (\<lambda>p. True)\<rparr>"

definition env_no_config :: Env where
  "env_no_config = env_ok\<lparr>stat_not_exist := (\<lambda>p. True), read_file := (\<lambda>p. None)\<rparr>"

definition env_unreadable :: Env where
  "env_unreadable = env_ok\<lparr>read_file := (\<lambda>p. None)\<rparr>"

definition env_bad_json :: Env where
  "env_bad_json = env_ok\<lparr>unmarshal := (\<lambda>d c. (False, c))\<rparr>"

definition env_spawn_fails :: Env where
  "env_spawn_fails = env_ok\<lparr>cmd_start := (\<lambda>p a. None)\<rparr>"


text \<open>The server after one successful \<^verbatim>\<open>Start\<close> in \<open>env_ok\<close>, from \<open>NewServer ''/opt''\<close>.\<close>

definition srv_running :: Server where
  "srv_running =
     \<lparr>running = True, statusChange = [''started''], dirPath = ''/opt'',
      config = \<lparr>SbConfig = ''sb.json'', SbBin = ''sing-box''\<rparr>,
      sbProcess = Some \<lparr>Path = ''/opt/sing-box'',
                        Args = [''/opt/sing-box'', ''run'', ''-c'', ''/opt/sb.json''],
                        Process = Some 7\<rparr>\<rparr>"

subsection \<open>The handle invariant\<close>

text \<open>
  The invariant of the calls that hold the mutex: while \<open>running\<close> holds, \<^verbatim>\<open>sbProcess\<close> is
  a command whose \<^verbatim>\<open>Process\<close> is set.
\<close>

definition handle_ok :: "Server \<Rightarrow> bool" where
  "handle_ok s =
     (running s \<longrightarrow> (case sbProcess s of None \<Rightarrow> False | Some c \<Rightarrow> Process c \<noteq> None))"

section \<open>The supervisors driven by a command file\<close>

text \<open>
  \<^verbatim>\<open>Config\<close> and \<^verbatim>\<open>SingBoxManager\<close> of part_003 and of the first program of
  \<^verbatim>\<open>src/cmd/oblivion-helper.go\<close>; the field names carry an \<open>_m\<close> where they would clash
  with those of the gRPC server. The field \<^verbatim>\<open>dirPath\<close> exists in oblivion-helper.go only.
\<close>

record MConfig =
  SbConfig_m :: string
  SbBin_m :: string
  WpBin :: string
  ObBin :: string
  MonitorWp :: bool
  MonitorOb :: bool

record SingBoxManager =
  config_m :: MConfig
  configFile :: string
  commandFile :: string
  singBoxProcess :: "Cmd option"
  dirPath_m :: string

text \<open>
  What the operating system answers to a manager. \<open>GOOS\<close> is \<^verbatim>\<open>runtime.GOOS\<close>.
  \<open>proc_signal p\<close> tells whether \<^verbatim>\<open>Process.Signal(SIGTERM)\<close> returns nil. After the
  signal the process \<open>p\<close> ends by itself after \<open>exit_delay p\<close> nanoseconds (\<open>None\<close>: never, it
  ignores the signal), in the way \<open>exit_how p\<close>; \<open>timer_first\<close> is the choice of \<^verbatim>\<open>select\<close>
  when the timer and the exit are ready together. \<open>processes\<close> is the list of the process
  names \<^verbatim>\<open>process.Processes\<close> yields on Windows (\<open>None\<close>: an error); \<open>pgrep n\<close> tells
  whether \<^verbatim>\<open>pgrep -f n\<close> succeeds with output; \<open>run_cmd\<close> is \<^verbatim>\<open>exec.Cmd.Run\<close>.
\<close>

record MEnv =
  GOOS :: string
  m_read_file :: "string \<Rightarrow> string option"
  m_unmarshal :: "string \<Rightarrow> MConfig \<Rightarrow> bool \<times> MConfig"
  m_cmd_start :: "string \<Rightarrow> string list \<Rightarrow> pid option"
  m_proc_kill :: "pid \<Rightarrow> bool"
  proc_signal :: "pid \<Rightarrow> bool"
  exit_delay :: "pid \<Rightarrow> nat option"
  exit_how :: "pid \<Rightarrow> exit_status"
  timer_first :: bool
  processes :: "string list option"
  pgrep :: "string \<Rightarrow> bool"
  run_cmd :: "string \<Rightarrow> string list \<Rightarrow> bool"

subsection \<open>src/unnamed/part_003: the stop path\<close>

text \<open>
  The \<^verbatim>\<open>select\<close> between \<^verbatim>\<open>time.After(5 * time.Second)\<close> and the goroutine that sends
  the result of \<^verbatim>\<open>Wait\<close>: the branch taken, for a process that was signalled. Scheduling
  delays are not modelled.
\<close>

datatype select_branch = TimerFired | WaitReturned "error option"

definition select_p3 :: "MEnv \<Rightarrow> pid \<Rightarrow> select_branch" where
  "select_p3 env p =
     (case exit_delay env p of
        None \<Rightarrow> TimerFired
      | Some d \<Rightarrow>
          if d < 5 * Second then WaitReturned (Cmd_Wait (exit_how env p))
          else if 5 * Second < d then TimerFired
          else if timer_first env then TimerFired
          else WaitReturned (Cmd_Wait (exit_how env p)))"

definition stopSingBox_p3 ::
  "MEnv \<Rightarrow> SingBoxManager \<Rightarrow> result \<times> SingBoxManager \<times> effect list" where
  "stopSingBox_p3 env m =
     (case singBoxProcess m of
        None \<Rightarrow> (Success, m, [Log PLAIN ''No Sing-Box process to stop.''])
      | Some c \<Rightarrow>
          (case Process c of
             None \<Rightarrow> (Panic, m, [])
           | Some p \<Rightarrow>
               (case (if GOOS env = ''windows''
                      then (\<not> m_proc_kill env p, [Kill p (m_proc_kill env p)])
                      else if \<not> proc_signal env p then (True, [Signal p False])
                      else (case select_p3 env p of
                              TimerFired \<Rightarrow>
                                (\<not> m_proc_kill env p,
                                 [Signal p True, Go ''singBoxProcess.Wait'',
                                  Kill p (m_proc_kill env p)])
                            | WaitReturned err \<Rightarrow>
                                (err \<noteq> None, [Signal p True, Go ''singBoxProcess.Wait'']))) of
                  (failed, fx) \<Rightarrow>
                    if failed then (Failure (Plain ''failed to stop Sing-Box: %w''), m, fx)
                    else (Success, m\<lparr>singBoxProcess := None\<rparr>,
                          fx @ [Log PLAIN ''Sing-Box stopped.'']))))"

subsection \<open>src/cmd/oblivion-helper.go, first program: the command file\<close>

text \<open>
  Go strings are byte strings. \<^verbatim>\<open>strings.TrimSpace\<close> and \<^verbatim>\<open>strings.ToLower\<close> belong to
  the standard library and work on Unicode text (white space such as U+00A0, letters
  such as U+0130); they are parameters of the model, so that what is proved of the command
  file holds for the library's own functions.
\<close>

record Strings =
  TrimSpace :: "string \<Rightarrow> string"
  ToLower :: "string \<Rightarrow> string"

text \<open>
  The first \<^verbatim>\<open>Scan\<close> of a \<^verbatim>\<open>bufio.Scanner\<close> splitting lines over the bytes of a file:
  no token for an empty file; \<^verbatim>\<open>ErrTooLong\<close> when the first 65536 bytes hold no line
  feed; otherwise the bytes before the first line feed (or all of them when there is
  none), without a trailing carriage return.
\<close>

definition MaxScanTokenSize :: nat where
  "MaxScanTokenSize = 64 * 1024"

definition dropCR :: "string \<Rightarrow> string" where
  "dropCR l = (if l \<noteq> [] \<and> last l = CHR 0x0D then butlast l else l)"

datatype scan = Token string | NoToken | ErrTooLong

definition Scan :: "string \<Rightarrow> scan" where
  "Scan bytes =
     (if bytes = [] then NoToken
      else if CHR 0x0A \<in> set (take MaxScanTokenSize bytes)
      then Token (dropCR (takeWhile (\<lambda>c. c \<noteq> CHR 0x0A) bytes))
      else if MaxScanTokenSize \<le> length bytes then ErrTooLong
      else Token (dropCR bytes))"

text \<open>
  What one tick of the watcher sees of the command file: the outcome of \<^verbatim>\<open>os.Stat\<close>
  (with the modification time, in nanoseconds since the zero \<^verbatim>\<open>time.Time\<close>) and the
  outcome of opening and reading it.
\<close>

type_synonym time = int

datatype stat_result = StatNotExist | StatError | StatOk time

datatype file_read = OpenNotExist | OpenError | Contents string

record tick =
  stat :: stat_result
  opened :: file_read

definition readCommandFromFile :: "Strings \<Rightarrow> file_read \<Rightarrow> string \<times> error option" where
  "readCommandFromFile strings f =
     (case f of
        OpenNotExist \<Rightarrow> ([], None)
      | OpenError \<Rightarrow> ([], Some (Plain ''open''))
      | Contents bytes \<Rightarrow>
          (case Scan bytes of
             Token text \<Rightarrow> (ToLower strings (TrimSpace strings text), None)
           | NoToken \<Rightarrow> ([], None)
           | ErrTooLong \<Rightarrow> ([], Some (Plain ''bufio.Scanner: token too long''))))"

text \<open>
  One iteration of the loop of \<^verbatim>\<open>watchCommandFile\<close>: the new \<^verbatim>\<open>lastModTime\<close>, the
  command sent on \<^verbatim>\<open>commandChan\<close> if any, and the log lines.
\<close>

definition watch_tick ::
  "Strings \<Rightarrow> time \<Rightarrow> tick \<Rightarrow> time \<times> string option \<times> effect list" where
  "watch_tick strings lastModTime t =
     (case stat t of
        StatNotExist \<Rightarrow> (lastModTime, None, [])
      | StatError \<Rightarrow> (lastModTime, None, [Log ERROR ''watchCommandFile: Error getting file info: %v''])
      | StatOk modTime \<Rightarrow>
          if lastModTime < modTime
          then (case readCommandFromFile strings (opened t) of
                  (command, err) \<Rightarrow>
                    if err = None \<and> command \<noteq> [] then (modTime, Some command, [])
                    else (lastModTime, None, []))
          else (lastModTime, None, []))"

text \<open>
  The loop of \<^verbatim>\<open>watchCommandFile\<close> over a sequence of ticks: the commands it accepts,
  in order, each with the modification time stored in \<^verbatim>\<open>lastModTime\<close> when it was
  accepted. \<^verbatim>\<open>lastModTime\<close> starts as the zero time; the channel carries the commands.
\<close>

fun watch_loop :: "Strings \<Rightarrow> time \<Rightarrow> tick list \<Rightarrow> (time \<times> string) list" where
  "watch_loop strings lastModTime [] = []"
| "watch_loop strings lastModTime (t # ts) =
     (case watch_tick strings lastModTime t of
        (l, None, fx) \<Rightarrow> watch_loop strings l ts
      | (l, Some command, fx) \<Rightarrow> (l, command) # watch_loop strings l ts)"

definition watchCommandFile :: "Strings \<Rightarrow> tick list \<Rightarrow> string list" where
  "watchCommandFile strings ts = map snd (watch_loop strings 0 ts)"

subsection \<open>src/cmd/oblivion-helper.go, first program: the commands\<close>

definition loadConfig_oh :: "MEnv \<Rightarrow> SingBoxManager \<Rightarrow> error option \<times> SingBoxManager" where
  "loadConfig_oh env m =
     (case m_read_file env (configFile m) of
        None \<Rightarrow> (Some (Plain ''failed to read config file: %w''), m)
      | Some byteValue \<Rightarrow>
          (case m_unmarshal env byteValue (config_m m) of
             (ok, c) \<Rightarrow> (if ok then None else Some (Plain ''json''), m\<lparr>config_m := c\<rparr>)))"

text \<open>
  \<^verbatim>\<open>startSingBox\<close> launches up to three \<^verbatim>\<open>monitorProcess\<close> goroutines; they appear as
  \<open>Go\<close> effects, and their bodies are not part of this model.
\<close>

definition startSingBox_oh :: "MEnv \<Rightarrow> SingBoxManager \<Rightarrow> SingBoxManager \<times> effect list" where
  "startSingBox_oh env m =
     (if singBoxProcess m \<noteq> None
      then (m, [Log WARN ''startSingBox: Sing-Box is already running''])
      else case loadConfig_oh env m of
             (Some e, m0) \<Rightarrow> (m0, [Log ERROR ''startSingBox: Failed to load config: %v''])
           | (None, m0) \<Rightarrow>
               (let sbBinFullPath = filepath_Join (dirPath_m m0) (SbBin_m (config_m m0));
                    sbConfigFullPath = filepath_Join (dirPath_m m0) (SbConfig_m (config_m m0));
                    argv = [sbBinFullPath, ''run'', ''-c'', sbConfigFullPath];
                    r = m_cmd_start env sbBinFullPath argv;
                    m1 = m0\<lparr>singBoxProcess :=
                              Some \<lparr>Path = sbBinFullPath, Args = argv, Process = r\<rparr>\<rparr>
                in case r of
                     None \<Rightarrow>
                       (m1, [Spawn sbBinFullPath argv None,
                             Log ERROR ''startSingBox: Failed to start Sing-Box: %v''])
                   | Some p \<Rightarrow>
                       (m1, [Spawn sbBinFullPath argv (Some p),
                             Log INFO ''startSingBox: Sing-Box started'',
                             Go ''monitorProcess(SbBin, monitorSingBox)'']
                            @ (if MonitorWp (config_m m1)
                               then [Go ''monitorProcess(WpBin, monitorWarpPlus)''] else [])
                            @ (if MonitorOb (config_m m1)
                               then [Go ''monitorProcess(ObBin, monitorOblivionHelper)''] else []))))"

definition stopSingBox_oh ::
  "MEnv \<Rightarrow> SingBoxManager \<Rightarrow> result \<times> SingBoxManager \<times> effect list" where
  "stopSingBox_oh env m =
     (case singBoxProcess m of
        None \<Rightarrow> (Success, m, [Log WARN ''stopSingBox: No Sing-Box process to stop''])
      | Some c \<Rightarrow>
          (case Process c of
             None \<Rightarrow> (Panic, m, [])
           | Some p \<Rightarrow>
               if \<not> m_proc_kill env p
               then (Success, m,
                     [Kill p False, Log ERROR ''stopSingBox: Failed to stop Sing-Box: %v''])
               else (Success, m\<lparr>singBoxProcess := None\<rparr>,
                     [Kill p True, Log INFO ''stopSingBox: Sing-Box stopped''])))"

definition isProcessRunning_oh :: "MEnv \<Rightarrow> string \<Rightarrow> bool \<times> effect list" where
  "isProcessRunning_oh env processName =
     (if GOOS env = ''windows''
      then (case processes env of
              None \<Rightarrow> (False, [Log ERROR ''isProcessRunning: Failed to get processes: %v''])
            | Some names \<Rightarrow> (processName \<in> set names, []))
      else if GOOS env = ''darwin'' \<or> GOOS env = ''linux''
      then (pgrep env processName, [])
      else (False, [Log WARN ''isProcessRunning: Unsupported operating system: %s'']))"

text \<open>\<^verbatim>\<open>strings.Contains\<close>.\<close>

fun Contains :: "string \<Rightarrow> string \<Rightarrow> bool" where
  "Contains [] substr = (substr = [])"
| "Contains (c # cs) substr = (take (length substr) (c # cs) = substr \<or> Contains cs substr)"

text \<open>The text \<^verbatim>\<open>"proxyMode":"tun"\<close>, quotation marks included.\<close>

definition proxyModeTun :: string where
  "proxyModeTun = [CHR 0x22] @ ''proxyMode'' @ [CHR 0x22] @ '':'' @ [CHR 0x22] @ ''tun'' @ [CHR 0x22]"

definition shouldKillWarpPlus_oh :: "MEnv \<Rightarrow> SingBoxManager \<Rightarrow> bool \<times> effect list" where
  "shouldKillWarpPlus_oh env m =
     (case isProcessRunning_oh env (WpBin (config_m m)) of
        (False, fx) \<Rightarrow> (False, fx)
      | (True, fx) \<Rightarrow>
          (case m_read_file env (filepath_Join (dirPath_m m) ''settings.json'') of
             None \<Rightarrow>
               (False, fx @ [Log ERROR ''shouldKillWarpPlus: Error reading settings.json: %v''])
           | Some content \<Rightarrow> (Contains content proxyModeTun, fx)))"

definition killWarpPlus_oh :: "MEnv \<Rightarrow> SingBoxManager \<Rightarrow> effect list" where
  "killWarpPlus_oh env m =
     (if GOOS env = ''windows'' \<or> GOOS env = ''darwin'' \<or> GOOS env = ''linux''
      then (let name = (if GOOS env = ''windows'' then ''taskkill'' else ''pkill'');
                args = (if GOOS env = ''windows''
                        then [''/F'', ''/IM'', WpBin (config_m m) @ ''.exe'']
                        else [WpBin (config_m m)]);
                ok = run_cmd env name args
            in Run name args ok #
               (if ok then [Log INFO ''killWarpPlus: Warp-Plus process killed successfully'']
                else [Log ERROR ''killWarpPlus: Failed to kill Warp-Plus process: %v'']))
      else [Log ERROR ''killWarpPlus: Unsupported OS: %s''])"

text \<open>How a call of the command loop ends: it returns, the program exits, or it panics.\<close>

datatype ending = Returns | Exits | Panics

definition handleExit_oh ::
  "MEnv \<Rightarrow> SingBoxManager \<Rightarrow> ending \<times> SingBoxManager \<times> effect list" where
  "handleExit_oh env m =
     (case isProcessRunning_oh env (SbBin_m (config_m m)) of
        (r, fx0) \<Rightarrow>
          (case (if r then stopSingBox_oh env m else (Success, m, [])) of
             (Panic, m1, fx1) \<Rightarrow> (Panics, m1, fx0 @ fx1)
           | (res, m1, fx1) \<Rightarrow>
               (case shouldKillWarpPlus_oh env m1 of
                  (k, fx2) \<Rightarrow>
                    (Exits, m1,
                     fx0 @ fx1 @ fx2 @ (if k then killWarpPlus_oh env m1 else [])
                       @ [Log INFO ''handleExit: Exiting helper'', OsExit]))))"

definition processCommand_oh ::
  "MEnv \<Rightarrow> string \<Rightarrow> SingBoxManager \<Rightarrow> ending \<times> SingBoxManager \<times> effect list" where
  "processCommand_oh env command m =
     (let pre = [Log INFO ''processCommand: Processing command: %s''] in
      if command = ''start''
      then (case startSingBox_oh env m of (m1, fx) \<Rightarrow> (Returns, m1, pre @ fx))
      else if command = ''stop''
      then (case stopSingBox_oh env m of
              (Panic, m1, fx) \<Rightarrow> (Panics, m1, pre @ fx)
            | (res, m1, fx) \<Rightarrow> (Returns, m1, pre @ fx))
      else if command = ''exit''
      then (case handleExit_oh env m of (e, m1, fx) \<Rightarrow> (e, m1, pre @ fx))
      else (Returns, m, pre @ [Log WARN ''processCommand: Unknown command: %s'']))"

text \<open>
  The loop of \<^verbatim>\<open>main\<close> over the commands received from \<^verbatim>\<open>commandChan\<close>, each with the
  environment at the time it is processed. \<open>Returns\<close> at the end of the list: the loop is
  blocked on the channel, waiting for the next command.
\<close>

fun main_loop_oh ::
  "(MEnv \<times> string) list \<Rightarrow> SingBoxManager \<Rightarrow> ending \<times> SingBoxManager \<times> effect list" where
  "main_loop_oh [] m = (Returns, m, [])"
| "main_loop_oh ((env, command) # rest) m =
     (case processCommand_oh env command m of
        (Returns, m1, fx) \<Rightarrow>
          (case main_loop_oh rest m1 of (e, m2, fx2) \<Rightarrow> (e, m2, fx @ fx2))
      | (e, m1, fx) \<Rightarrow> (e, m1, fx))"

subsection \<open>Concrete inputs for the managers\<close>

definition menv_linux :: MEnv where
  "menv_linux =
     \<lparr>GOOS = ''linux'',
      m_read_file = (\<lambda>p. Some ''{}''),
      m_unmarshal = (\<lambda>d c. (True, c\<lparr>SbConfig_m := ''sb.json'', SbBin_m := ''sing-box''\<rparr>)),
      m_cmd_start = (\<lambda>p a. Some 7),
      m_proc_kill = (\<lambda>p. True),
      proc_signal = (\<lambda>p. True),
      exit_delay = (\<lambda>p. None),
      exit_how = (\<lambda>p. Signaled 9),
      timer_first = True,
      processes = None,
      pgrep = (\<lambda>n. True),
      run_cmd = (\<lambda>n a. True)\<rparr>"

definition menv_windows :: MEnv where
  "menv_windows = menv_linux\<lparr>GOOS := ''windows''\<rparr>"

definition mgr_running :: SingBoxManager where
  "mgr_running =
     \<lparr>config_m = \<lparr>SbConfig_m = ''sb.json'', SbBin_m = ''sing-box'', WpBin = ''warp-plus'',
                  ObBin = ''oblivion-desktop'', MonitorWp = False, MonitorOb = False\<rparr>,
      configFile = ''/opt/config.obv'', commandFile = ''/opt/cmd.obv'',
      singBoxProcess = Some \<lparr>Path = ''/opt/sing-box'',
                             Args = [''/opt/sing-box'', ''run'', ''-c'', ''/opt/sb.json''],
                             Process = Some 7\<rparr>,
      dirPath_m = ''/opt''\<rparr>"

text \<open>
  An instance of the two library functions for the examples below. It agrees with
  \<^verbatim>\<open>strings.TrimSpace\<close> and \<^verbatim>\<open>strings.ToLower\<close> on ASCII text, which is all the examples
  contain: it trims tab, line feed, vertical tab, form feed, carriage return and space,
  and lowers the letters \<^verbatim>\<open>A\<close> to \<^verbatim>\<open>Z\<close>.
\<close>

definition isSpace_ascii :: "char \<Rightarrow> bool" where
  "isSpace_ascii c = (of_char c \<in> {9, 10, 11, 12, 13, 32 :: nat})"

definition toLower_ascii :: "char \<Rightarrow> char" where
  "toLower_ascii c =
     (let n = of_char c :: nat in if 65 \<le> n \<and> n \<le> 90 then char_of (n + 32) else c)"

definition strings_ascii :: Strings where
  "strings_ascii =
     \<lparr>TrimSpace = (\<lambda>s. rev (dropWhile isSpace_ascii (rev (dropWhile isSpace_ascii s)))),
      ToLower = map toLower_ascii\<rparr>"

text \<open>
  Two ticks: a command file whose first line is \<^verbatim>\<open>StArT\<close> between spaces, ended by a
  carriage return and a line feed, and one that holds an unknown token.
\<close>

definition tick_start :: tick where
  "tick_start = \<lparr>stat = StatOk 5, opened = Contents (''  StArT '' @ [CHR 0x0D, CHR 0x0A] @ ''stop'')\<rparr>"

definition tick_bogus :: tick where
  "tick_bogus = \<lparr>stat = StatOk 6, opened = Contents ''bogus''\<rparr>"

section \<open>Properties\<close>

subsection \<open>What single calls leave unchanged\<close>

lemma broadcastStatus_main_fields:
  "broadcastStatus_main v s = (s', fx) \<Longrightarrow>
   running s' = running s \<and> sbProcess s' = sbProcess s \<and> dirPath s' = dirPath s \<and>
   config s' = config s \<and>
   statusChange s' =
     (if length (statusChange s) < statusChannelCap_main then statusChange s @ [v]
      else statusChange s)"
  by (auto simp: broadcastStatus_main_def split: if_splits)

lemma broadcastStatus_p2_fields:
  "broadcastStatus_p2 v s = (s', fx) \<Longrightarrow>
   running s' = running s \<and> sbProcess s' = sbProcess s \<and> dirPath s' = dirPath s \<and>
   config s' = config s \<and>
   statusChange s' =
     (if length (statusChange s) < statusChannelCap then statusChange s @ [v]
      else statusChange s)"
  by (auto simp: broadcastStatus_p2_def split: if_splits)

lemma loadConfig_main_fields:
  "loadConfig_main env s = (r, s') \<Longrightarrow>
   running s' = running s \<and> sbProcess s' = sbProcess s \<and>
   statusChange s' = statusChange s \<and> dirPath s' = dirPath s"
  by (auto simp: loadConfig_main_def Let_def split: if_splits option.splits prod.splits)

lemma loadConfig_p2_fields:
  "loadConfig_p2 env s = (r, s') \<Longrightarrow>
   running s' = running s \<and> sbProcess s' = sbProcess s \<and>
   statusChange s' = statusChange s \<and> dirPath s' = dirPath s"
  by (auto simp: loadConfig_p2_def Let_def split: if_splits option.splits prod.splits)

lemma loadConfig_p2_errors:
  "loadConfig_p2 env s = (Some e, s') \<Longrightarrow>
   (let p = filepath_Join (dirPath s) configFileName in
      if stat_not_exist env p then e = Status NotFound ''configuration file not found at %s''
      else if read_file env p = None then e = Status Internal ''failed to read config file: %v''
      else e = Status InvalidArgument ''failed to parse config: %v'')"
  by (auto simp: loadConfig_p2_def Let_def split: if_splits option.splits prod.splits)

lemma Start_main_running:
  "running s \<Longrightarrow>
   Start_main env s = (Failure (Status AlreadyExists ''Sing-Box is already running''), s, [])"
  by (simp add: Start_main_def)

lemma Start_p2_running:
  "running s \<Longrightarrow>
   Start_p2 env s =
     (Failure (Status AlreadyExists ''Sing-Box is already running''), s,
      [Log ERROR ''Start error: %v''])"
  by (simp add: Start_p2_def startSingBox_p2_def)

lemma srv_running_reached_main:
  "Start_main env_ok (NewServer ''/opt'') =
     (Success, srv_running,
      [Spawn ''/opt/sing-box'' [''/opt/sing-box'', ''run'', ''-c'', ''/opt/sb.json''] (Some 7),
       Log PLAIN ''Sing-Box started'', Go ''monitorProcess''])"
  by (simp add: Start_main_def NewServer_def env_ok_def loadConfig_main_def
      startSingBox_main_def broadcastStatus_main_def statusChannelCap_main_def
      filepath_Join_def configFileName_def srv_running_def Let_def)

lemma srv_running_reached_p2:
  "Start_p2 env_ok (NewServer ''/opt'') =
     (Success, srv_running,
      [Spawn ''/opt/sing-box'' [''/opt/sing-box'', ''run'', ''-c'', ''/opt/sb.json''] (Some 7),
       Log INFO ''Sing-Box started'', Go ''monitorProcess''])"
  by (simp add: Start_p2_def NewServer_def env_ok_def loadConfig_p2_def
      startSingBox_p2_def broadcastStatus_p2_def statusChannelCap_def
      filepath_Join_def configFileName_def srv_running_def Let_def)

subsection \<open>Start while running\<close>

text \<open>
  Claim C5. In every state with \<open>running = True\<close>, \<^verbatim>\<open>Start\<close> returns the status error
  \<^verbatim>\<open>AlreadyExists\<close> "Sing-Box is already running" in both gRPC servers. The whole server
  state comes back unchanged (the running flag, the process handle, the channel), and the
  call performs no effect on any process: none at all in \<^verbatim>\<open>src/cmd/main.go\<close>, one log line
  in part_002.
\<close>

theorem start_while_running_rejected:
  "running s \<Longrightarrow>
   Start_main env s = (Failure (Status AlreadyExists ''Sing-Box is already running''), s, []) \<and>
   Start_p2 env s =
     (Failure (Status AlreadyExists ''Sing-Box is already running''), s,
      [Log ERROR ''Start error: %v''])"
  by (simp add: Start_main_running Start_p2_running)

theorem start_while_running_rejected_witness:
  "running srv_running \<and>
   Start_main env_ok srv_running =
     (Failure (Status AlreadyExists ''Sing-Box is already running''), srv_running, []) \<and>
   Start_p2 env_ok srv_running =
     (Failure (Status AlreadyExists ''Sing-Box is already running''), srv_running,
      [Log ERROR ''Start error: %v''])"
  using start_while_running_rejected [of srv_running env_ok] by (simp add: srv_running_def)

subsection \<open>Stop while not running\<close>

text \<open>
  Claim C6. In every state with \<open>running = False\<close>, \<^verbatim>\<open>Stop\<close> returns the status error
  \<^verbatim>\<open>FailedPrecondition\<close> "Sing-Box is not running" in both gRPC servers, the state comes
  back unchanged, and nothing is sent on the status channel (the only effect is the log line
  of part_002).
\<close>

theorem stop_while_stopped_rejected:
  "\<not> running s \<Longrightarrow>
   Stop_main env s = (Failure (Status FailedPrecondition ''Sing-Box is not running''), s, []) \<and>
   Stop_p2 env s =
     (Failure (Status FailedPrecondition ''Sing-Box is not running''), s,
      [Log ERROR ''Stop error: %v''])"
  by (simp add: Stop_main_def Stop_p2_def stopSingBox_p2_def)

theorem stop_while_stopped_rejected_witness:
  "\<not> running (NewServer ''/opt'') \<and>
   Stop_main env_ok (NewServer ''/opt'') =
     (Failure (Status FailedPrecondition ''Sing-Box is not running''), NewServer ''/opt'', []) \<and>
   Stop_p2 env_ok (NewServer ''/opt'') =
     (Failure (Status FailedPrecondition ''Sing-Box is not running''), NewServer ''/opt'',
      [Log ERROR ''Stop error: %v''])"
  using stop_while_stopped_rejected [of "NewServer ''/opt''" env_ok] by (simp add: NewServer_def)

subsection \<open>Start when the configuration cannot be loaded\<close>

text \<open>
  Claim C3. A \<^verbatim>\<open>Start\<close> call on a server that is not running, whose \<^verbatim>\<open>loadConfig\<close> returns
  an error, returns a configuration error: in part_002 \<^verbatim>\<open>NotFound\<close> for a missing file,
  \<^verbatim>\<open>Internal\<close> "failed to read config file" for an unreadable one and \<^verbatim>\<open>InvalidArgument\<close>
  for one that does not parse; in \<^verbatim>\<open>src/cmd/main.go\<close> \<^verbatim>\<open>FailedPrecondition\<close> "Failed to
  load config". No process is spawned (the effects hold no \<open>Spawn\<close>), nothing is sent on the
  status channel, and the running flag and the process handle are unchanged.
\<close>

theorem start_config_failure:
  "\<not> running s \<Longrightarrow>
   (loadConfig_p2 env s = (Some e, s') \<longrightarrow>
      Start_p2 env s = (Failure e, s', [Log ERROR ''Start error: %v'']) \<and>
      running s' = running s \<and> sbProcess s' = sbProcess s \<and>
      statusChange s' = statusChange s \<and>
      (let p = filepath_Join (dirPath s) configFileName in
         if stat_not_exist env p then e = Status NotFound ''configuration file not found at %s''
         else if read_file env p = None then e = Status Internal ''failed to read config file: %v''
         else e = Status InvalidArgument ''failed to parse config: %v'')) \<and>
   (loadConfig_main env s = (Some e1, s1) \<longrightarrow>
      Start_main env s =
        (Failure (Status FailedPrecondition ''Failed to load config: %v''), s1, []) \<and>
      running s1 = running s \<and> sbProcess s1 = sbProcess s \<and>
      statusChange s1 = statusChange s)"
  using loadConfig_p2_fields [of env s "Some e" s'] loadConfig_p2_errors [of env s e s']
    loadConfig_main_fields [of env s "Some e1" s1]
  by (auto simp: Start_p2_def startSingBox_p2_def Start_main_def)

text \<open>The claim at a missing, an unreadable and an unparsable configuration file.\<close>

theorem start_config_failure_witness:
  "\<not> running (NewServer ''/opt'') \<and>
   Start_p2 env_no_config (NewServer ''/opt'') =
     (Failure (Status NotFound ''configuration file not found at %s''), NewServer ''/opt'',
      [Log ERROR ''Start error: %v'']) \<and>
   Start_p2 env_unreadable (NewServer ''/opt'') =
     (Failure (Status Internal ''failed to read config file: %v''), NewServer ''/opt'',
      [Log ERROR ''Start error: %v'']) \<and>
   Start_p2 env_bad_json (NewServer ''/opt'') =
     (Failure (Status InvalidArgument ''failed to parse config: %v''), NewServer ''/opt'',
      [Log ERROR ''Start error: %v'']) \<and>
   Start_main env_no_config (NewServer ''/opt'') =
     (Failure (Status FailedPrecondition ''Failed to load config: %v''), NewServer ''/opt'', []) \<and>
   Start_main env_bad_json (NewServer ''/opt'') =
     (Failure (Status FailedPrecondition ''Failed to load config: %v''), NewServer ''/opt'', [])"
proof -
  have n: "\<not> running (NewServer ''/opt'')" by (simp add: NewServer_def)
  have a: "loadConfig_p2 env_no_config (NewServer ''/opt'') =
      (Some (Status NotFound ''configuration file not found at %s''), NewServer ''/opt'')"
    by (simp add: NewServer_def env_no_config_def env_ok_def loadConfig_p2_def)
  have b: "loadConfig_p2 env_unreadable (NewServer ''/opt'') =
      (Some (Status Internal ''failed to read config file: %v''), NewServer ''/opt'')"
    by (simp add: NewServer_def env_unreadable_def env_ok_def loadConfig_p2_def)
  have c: "loadConfig_p2 env_bad_json (NewServer ''/opt'') =
      (Some (Status InvalidArgument ''failed to parse config: %v''), NewServer ''/opt'')"
    by (simp add: NewServer_def env_bad_json_def env_ok_def loadConfig_p2_def)
  have d: "loadConfig_main env_no_config (NewServer ''/opt'') =
      (Some (Plain ''failed to read config file: %w''), NewServer ''/opt'')"
    by (simp add: NewServer_def env_no_config_def env_ok_def loadConfig_main_def)
  have e: "loadConfig_main env_bad_json (NewServer ''/opt'') =
      (Some (Plain ''json''), NewServer ''/opt'')"
    by (simp add: NewServer_def env_bad_json_def env_ok_def loadConfig_main_def)
  from start_config_failure [OF n, of env_no_config
      "Status NotFound ''configuration file not found at %s''" "NewServer ''/opt''"
      "Plain ''failed to read config file: %w''" "NewServer ''/opt''"] a d
  have 1: "Start_p2 env_no_config (NewServer ''/opt'') =
     (Failure (Status NotFound ''configuration file not found at %s''), NewServer ''/opt'',
      [Log ERROR ''Start error: %v''])"
    and 2: "Start_main env_no_config (NewServer ''/opt'') =
     (Failure (Status FailedPrecondition ''Failed to load config: %v''), NewServer ''/opt'', [])"
    by blast+
  from start_config_failure [OF n, of env_unreadable
      "Status Internal ''failed to read config file: %v''" "NewServer ''/opt''"] b
  have 3: "Start_p2 env_unreadable (NewServer ''/opt'') =
     (Failure (Status Internal ''failed to read config file: %v''), NewServer ''/opt'',
      [Log ERROR ''Start error: %v''])"
    by blast
  from start_config_failure [OF n, of env_bad_json
      "Status InvalidArgument ''failed to parse config: %v''" "NewServer ''/opt''"
      "Plain ''json''" "NewServer ''/opt''"] c e
  have 4: "Start_p2 env_bad_json (NewServer ''/opt'') =
     (Failure (Status InvalidArgument ''failed to parse config: %v''), NewServer ''/opt'',
      [Log ERROR ''Start error: %v''])"
    and 5: "Start_main env_bad_json (NewServer ''/opt'') =
     (Failure (Status FailedPrecondition ''Failed to load config: %v''), NewServer ''/opt'', [])"
    by blast+
  from n 1 2 3 4 5 show ?thesis by (intro conjI)
qed

subsection \<open>The monitor on an error exit\<close>

lemma monitorProcess_p2_error:
  "running s \<Longrightarrow> Cmd_Wait st \<noteq> None \<Longrightarrow> monitorProcess_p2 st s = (s', fx) \<Longrightarrow>
     \<not> running s' \<and> sbProcess s' = None \<and> dirPath s' = dirPath s \<and> config s' = config s \<and>
     statusChange s' = (if length (statusChange s) < statusChannelCap
                        then statusChange s @ [''terminated''] else statusChange s)"
  by (auto simp: monitorProcess_p2_def Let_def split: prod.splits dest!: broadcastStatus_p2_fields)

lemma monitorProcess_main_error:
  "running s \<Longrightarrow> Cmd_Wait st \<noteq> None \<Longrightarrow> monitorProcess_main st s = (s', fx) \<Longrightarrow>
     \<not> running s' \<and> sbProcess s' = None \<and> dirPath s' = dirPath s \<and> config s' = config s \<and>
     statusChange s' = (if length (statusChange s) < statusChannelCap_main
                        then statusChange s @ [''stopped''] else statusChange s)"
  by (auto simp: monitorProcess_main_def Let_def split: prod.splits dest!: broadcastStatus_main_fields)

subsection \<open>Preservation of the handle invariant\<close>

lemma stopSingBox_main_handle: 
  "stopSingBox_main env s = (r, s', fx) \<Longrightarrow> 
    (r = Panic \<longleftrightarrow> (case sbProcess s of None \<Rightarrow> True | Some c \<Rightarrow> Process c = None)) \<and>
    (r = Success \<longrightarrow> \<not> running s' \<and> sbProcess s' = None) \<and>
    (r \<noteq> Success \<longrightarrow> s' = s)"
  by (auto simp: stopSingBox_main_def split: option.splits if_splits prod.splits dest!: broadcastStatus_main_fields)

lemma stopSingBox_p2_handle: 
  "stopSingBox_p2 env s = (r, s', fx) \<Longrightarrow> 
    (r = Panic \<longleftrightarrow> running s \<and> (case sbProcess s of None \<Rightarrow> True | Some c \<Rightarrow> Process c = None)) \<and>
    (r = Success \<longrightarrow> \<not> running s' \<and> sbProcess s' = None) \<and>
    (r \<noteq> Success \<longrightarrow> s' = s)"
  by (auto simp: stopSingBox_p2_def split: option.splits if_splits prod.splits dest!: broadcastStatus_p2_fields)

lemma startSingBox_main_handle:
  "startSingBox_main env s = (r, s', fx) \<Longrightarrow> \<not> running s \<Longrightarrow> handle_ok s'"
  by (auto simp: startSingBox_main_def Let_def handle_ok_def split: option.splits prod.splits dest!: broadcastStatus_main_fields)

lemma startSingBox_p2_handle:
  "startSingBox_p2 env s = (r, s', fx) \<Longrightarrow> handle_ok s \<Longrightarrow> handle_ok s'"
  by (auto simp: startSingBox_p2_def Let_def handle_ok_def split: option.splits prod.splits if_splits 
      dest!: broadcastStatus_p2_fields loadConfig_p2_fields)

lemma Start_main_handle:
  "Start_main env s = (r, s', fx) \<Longrightarrow> handle_ok s \<Longrightarrow> handle_ok s' \<and> r \<noteq> Panic"
  apply (auto simp: Start_main_def split: if_splits prod.splits option.splits)
   apply (auto dest!: loadConfig_main_fields startSingBox_main_handle simp: handle_ok_def)
  done

lemma Start_p2_handle:
  "Start_p2 env s = (r, s', fx) \<Longrightarrow> handle_ok s \<Longrightarrow> handle_ok s' \<and> r \<noteq> Panic"
  by (auto simp: Start_p2_def split: if_splits prod.splits option.splits dest: startSingBox_p2_handle)

lemma Stop_main_handle:
  "Stop_main env s = (r, s', fx) \<Longrightarrow> handle_ok s \<Longrightarrow> handle_ok s' \<and> r \<noteq> Panic"
  by (auto simp: Stop_main_def handle_ok_def split: if_splits prod.splits option.splits result.splits 
     dest!: stopSingBox_main_handle)

lemma Stop_p2_handle:
  "Stop_p2 env s = (r, s', fx) \<Longrightarrow> handle_ok s \<Longrightarrow> handle_ok s' \<and> r \<noteq> Panic"
  by (auto simp: Stop_p2_def handle_ok_def split: if_splits prod.splits option.splits result.splits 
     dest!: stopSingBox_p2_handle)

lemma Exit_main_handle:
  "Exit_main env s = (r, s', fx) \<Longrightarrow> handle_ok s \<Longrightarrow> handle_ok s' \<and> r \<noteq> Panic"
  by (auto simp: Exit_main_def handle_ok_def Let_def split: if_splits prod.splits option.splits result.splits 
     dest!: stopSingBox_main_handle broadcastStatus_main_fields)

lemma Exit_p2_handle:
  "Exit_p2 env s = (r, s', fx) \<Longrightarrow> handle_ok s \<Longrightarrow> handle_ok s' \<and> r \<noteq> Panic"
  by (auto simp: Exit_p2_def handle_ok_def Let_def split: if_splits prod.splits option.splits result.splits 
     dest!: stopSingBox_p2_handle)

lemma monitorProcess_main_handle:
  "monitorProcess_main st s = (s', fx) \<Longrightarrow> handle_ok s \<Longrightarrow> handle_ok s'"
  by (auto simp: monitorProcess_main_def handle_ok_def Let_def split: if_splits prod.splits 
     dest!: broadcastStatus_main_fields)

lemma monitorProcess_p2_handle:
  "monitorProcess_p2 st s = (s', fx) \<Longrightarrow> handle_ok s \<Longrightarrow> handle_ok s'"
  by (auto simp: monitorProcess_p2_def handle_ok_def Let_def split: if_splits prod.splits 
     dest!: broadcastStatus_p2_fields)

lemma receive_handle: "handle_ok s \<Longrightarrow> handle_ok (receive s)"
  by (auto simp: receive_def handle_ok_def split: list.splits)

lemma StreamCancelled_handle:
  "StreamStatus_p2 env [CtxDone] s = (sent, r, s', fx) \<Longrightarrow> handle_ok s \<Longrightarrow> handle_ok s' \<and> r \<noteq> Some Panic"
  by (auto simp: StreamStatus_p2_def handle_ok_def Let_def split: if_splits prod.splits option.splits result.splits 
     dest!: stopSingBox_p2_handle)

lemma step_main_handle:
  "step_main c s = (r, s', fx) \<Longrightarrow> handle_ok s \<Longrightarrow> handle_ok s' \<and> r \<noteq> Panic"
  by (cases c) (auto dest: Start_main_handle Stop_main_handle Exit_main_handle monitorProcess_main_handle
       receive_handle split: prod.splits)

lemma step_p2_handle:
  "step_p2 c s = (r, s', fx) \<Longrightarrow> handle_ok s \<Longrightarrow> handle_ok s' \<and> r \<noteq> Panic"
  by (cases c) (auto dest: Start_p2_handle Stop_p2_handle Exit_p2_handle monitorProcess_p2_handle
       receive_handle StreamCancelled_handle split: prod.splits option.splits result.splits)

lemma run_main_handle:
  "handle_ok s \<Longrightarrow> \<exists>s'. run_main cs s = Some s' \<and> handle_ok s'"
proof (induction cs arbitrary: s)
  case Nil
  then show ?case by simp
next
  case (Cons c cs)
  obtain r s1 fx where st: "step_main c s = (r, s1, fx)" by (cases "step_main c s") auto
  with Cons.prems have "handle_ok s1" "r \<noteq> Panic" using step_main_handle by blast+
  with Cons.IH[of s1] st show ?case by (cases r) auto
qed

lemma run_p2_handle:
  "handle_ok s \<Longrightarrow> \<exists>s'. run_p2 cs s = Some s' \<and> handle_ok s'"
proof (induction cs arbitrary: s)
  case Nil
  then show ?case by simp
next
  case (Cons c cs)
  obtain r s1 fx where st: "step_p2 c s = (r, s1, fx)" by (cases "step_p2 c s") auto
  with Cons.prems have "handle_ok s1" "r \<noteq> Panic" using step_p2_handle by blast+
  with Cons.IH[of s1] st show ?case by (cases r) auto
qed

subsection \<open>Values a call can add to the channel\<close>

lemma broadcastStatus_main_set:
  "broadcastStatus_main v s = (s', fx) \<Longrightarrow> set (statusChange s') \<subseteq> insert v (set (statusChange s))"
  by (auto dest!: broadcastStatus_main_fields split: if_splits)

lemma broadcastStatus_p2_set:
  "broadcastStatus_p2 v s = (s', fx) \<Longrightarrow> set (statusChange s') \<subseteq> insert v (set (statusChange s))"
  by (auto dest!: broadcastStatus_p2_fields split: if_splits)

lemma startSingBox_main_set:
  "startSingBox_main env s = (r, s', fx) \<Longrightarrow>
   set (statusChange s') \<subseteq> insert ''started'' (set (statusChange s))"
  by (auto simp: startSingBox_main_def Let_def split: option.splits prod.splits
      dest!: broadcastStatus_main_set)

lemma Start_main_set:
  "Start_main env s = (r, s', fx) \<Longrightarrow>
   set (statusChange s') \<subseteq> insert ''started'' (set (statusChange s))"
  by (auto simp: Start_main_def split: if_splits option.splits prod.splits
      dest!: startSingBox_main_set loadConfig_main_fields)

lemma stopSingBox_main_set:
  "stopSingBox_main env s = (r, s', fx) \<Longrightarrow>
   set (statusChange s') \<subseteq> insert ''stopped'' (set (statusChange s))"
  by (auto simp: stopSingBox_main_def Let_def split: option.splits prod.splits if_splits
      dest!: broadcastStatus_main_set)

lemma Stop_main_set:
  "Stop_main env s = (r, s', fx) \<Longrightarrow>
   set (statusChange s') \<subseteq> insert ''stopped'' (set (statusChange s))"
proof (cases "running s")
  case False
  assume "Stop_main env s = (r, s', fx)"
  with False show ?thesis by (auto simp: Stop_main_def)
next
  case True
  assume a: "Stop_main env s = (r, s', fx)"
  obtain r1 s1 fx1 where st: "stopSingBox_main env s = (r1, s1, fx1)"
    by (cases "stopSingBox_main env s")
  from a True st have "s' = s1" by (cases r1) (auto simp: Stop_main_def)
  with stopSingBox_main_set [OF st] show ?thesis by simp
qed

lemma Exit_main_set:
  "Exit_main env s = (r, s', fx) \<Longrightarrow>
   set (statusChange s') \<subseteq> insert ''exited'' (insert ''stopped'' (set (statusChange s)))"
proof -
  assume a: "Exit_main env s = (r, s', fx)"
  obtain s1 fx1 where b: "broadcastStatus_main ''exited'' s = (s1, fx1)"
    by (cases "broadcastStatus_main ''exited'' s")
  obtain r2 s2 fx2 where st: "stopSingBox_main env s1 = (r2, s2, fx2)"
    by (cases "stopSingBox_main env s1")
  from a b st have "s' = s1 \<or> s' = s2"
    by (cases r2) (auto simp: Exit_main_def Let_def split: if_splits)
  with broadcastStatus_main_set [OF b] stopSingBox_main_set [OF st] show ?thesis by auto
qed

lemma monitorProcess_main_set:
  "monitorProcess_main st s = (s', fx) \<Longrightarrow>
   set (statusChange s') \<subseteq> insert ''stopped'' (set (statusChange s))"
  by (auto simp: monitorProcess_main_def Let_def split: prod.splits if_splits
      dest!: broadcastStatus_main_set)

lemma receive_set: "set (statusChange (receive s)) \<subseteq> set (statusChange s)"
  by (auto simp: receive_def split: list.splits)

lemma step_main_set:
  "step_main c s = (r, s', fx) \<Longrightarrow>
   set (statusChange s') \<subseteq> {''started'', ''stopped'', ''exited''} \<union> set (statusChange s)"
proof (cases c)
  case (CallStart env)
  assume "step_main c s = (r, s', fx)"
  with CallStart Start_main_set [of env s r s' fx] show ?thesis by auto
next
  case (CallStop env)
  assume "step_main c s = (r, s', fx)"
  with CallStop Stop_main_set [of env s r s' fx] show ?thesis by auto
next
  case (CallExit env)
  assume "step_main c s = (r, s', fx)"
  with CallExit Exit_main_set [of env s r s' fx] show ?thesis by auto
next
  case (MonitorWakes st)
  assume "step_main c s = (r, s', fx)"
  with MonitorWakes monitorProcess_main_set [of st s s'] show ?thesis
    by (auto split: prod.splits)
next
  case SubscriberReceives
  assume "step_main c s = (r, s', fx)"
  with SubscriberReceives receive_set [of s] show ?thesis by auto
next
  case (StreamCancelled env)
  assume "step_main c s = (r, s', fx)"
  with StreamCancelled show ?thesis by (auto simp: subset_iff)
qed

lemma run_main_set:
  "run_main cs s = Some s' \<Longrightarrow>
   set (statusChange s') \<subseteq> {''started'', ''stopped'', ''exited''} \<union> set (statusChange s)"
proof (induction cs arbitrary: s)
  case Nil
  then show ?case by auto
next
  case (Cons c cs)
  obtain r s1 fx where st: "step_main c s = (r, s1, fx)" by (cases "step_main c s")
  with Cons.prems have "run_main cs s1 = Some s'" by (cases r) auto
  from Cons.IH [OF this] step_main_set [OF st] show ?case by blast
qed

lemma startSingBox_p2_set:
  "startSingBox_p2 env s = (r, s', fx) \<Longrightarrow>
   set (statusChange s') \<subseteq> insert ''started'' (set (statusChange s))"
  by (auto simp: startSingBox_p2_def Let_def split: option.splits prod.splits if_splits
      dest!: broadcastStatus_p2_set loadConfig_p2_fields)

lemma Start_p2_set:
  "Start_p2 env s = (r, s', fx) \<Longrightarrow>
   set (statusChange s') \<subseteq> insert ''started'' (set (statusChange s))"
  by (auto simp: Start_p2_def split: option.splits prod.splits dest!: startSingBox_p2_set)

lemma stopSingBox_p2_set:
  "stopSingBox_p2 env s = (r, s', fx) \<Longrightarrow>
   set (statusChange s') \<subseteq> insert ''stopped'' (set (statusChange s))"
  by (auto simp: stopSingBox_p2_def Let_def split: option.splits prod.splits if_splits
      dest!: broadcastStatus_p2_set)

lemma Stop_p2_set:
  "Stop_p2 env s = (r, s', fx) \<Longrightarrow>
   set (statusChange s') \<subseteq> insert ''stopped'' (set (statusChange s))"
proof -
  assume a: "Stop_p2 env s = (r, s', fx)"
  obtain r1 s1 fx1 where st: "stopSingBox_p2 env s = (r1, s1, fx1)"
    by (cases "stopSingBox_p2 env s")
  from a st have "s' = s1" by (cases r1) (auto simp: Stop_p2_def)
  with stopSingBox_p2_set [OF st] show ?thesis by simp
qed

lemma Exit_p2_set:
  "Exit_p2 env s = (r, s', fx) \<Longrightarrow>
   set (statusChange s') \<subseteq> insert ''stopped'' (set (statusChange s))"
proof -
  assume a: "Exit_p2 env s = (r, s', fx)"
  obtain r2 s2 fx2 where st: "stopSingBox_p2 env s = (r2, s2, fx2)"
    by (cases "stopSingBox_p2 env s")
  from a st have "s' = s \<or> s' = s2"
    by (cases r2) (auto simp: Exit_p2_def Let_def split: if_splits)
  with stopSingBox_p2_set [OF st] show ?thesis by auto
qed

lemma StreamCancelled_set:
  "StreamStatus_p2 env [CtxDone] s = (sent, r, s', fx) \<Longrightarrow>
   set (statusChange s') \<subseteq> insert ''stopped'' (set (statusChange s))"
proof -
  assume a: "StreamStatus_p2 env [CtxDone] s = (sent, r, s', fx)"
  obtain r2 s2 fx2 where st: "stopSingBox_p2 env s = (r2, s2, fx2)"
    by (cases "stopSingBox_p2 env s")
  from a st have "s' = s \<or> s' = s2"
    by (cases r2) (auto simp: StreamStatus_p2_def Let_def split: if_splits)
  with stopSingBox_p2_set [OF st] show ?thesis by auto
qed

lemma monitorProcess_p2_set:
  "monitorProcess_p2 st s = (s', fx) \<Longrightarrow>
   set (statusChange s') \<subseteq> insert ''terminated'' (set (statusChange s))"
  by (auto simp: monitorProcess_p2_def Let_def split: prod.splits if_splits
      dest!: broadcastStatus_p2_set)

lemma step_p2_set:
  "step_p2 c s = (r, s', fx) \<Longrightarrow>
   set (statusChange s') \<subseteq> {''started'', ''stopped'', ''terminated''} \<union> set (statusChange s)"
proof (cases c)
  case (CallStart env)
  assume "step_p2 c s = (r, s', fx)"
  with CallStart Start_p2_set [of env s r s' fx] show ?thesis by auto
next
  case (CallStop env)
  assume "step_p2 c s = (r, s', fx)"
  with CallStop Stop_p2_set [of env s r s' fx] show ?thesis by auto
next
  case (CallExit env)
  assume "step_p2 c s = (r, s', fx)"
  with CallExit Exit_p2_set [of env s r s' fx] show ?thesis by auto
next
  case (MonitorWakes st)
  assume "step_p2 c s = (r, s', fx)"
  with MonitorWakes monitorProcess_p2_set [of st s s'] show ?thesis
    by (auto split: prod.splits)
next
  case SubscriberReceives
  assume "step_p2 c s = (r, s', fx)"
  with SubscriberReceives receive_set [of s] show ?thesis by auto
next
  case (StreamCancelled env)
  assume a: "step_p2 c s = (r, s', fx)"
  obtain sent r1 s1 fx1 where st: "StreamStatus_p2 env [CtxDone] s = (sent, r1, s1, fx1)"
    by (cases "StreamStatus_p2 env [CtxDone] s")
  from a StreamCancelled st have "s' = s1"
    by (auto split: option.splits result.splits)
  with StreamCancelled_set [OF st] show ?thesis by auto
qed

lemma run_p2_set:
  "run_p2 cs s = Some s' \<Longrightarrow>
   set (statusChange s') \<subseteq> {''started'', ''stopped'', ''terminated''} \<union> set (statusChange s)"
proof (induction cs arbitrary: s)
  case Nil
  then show ?case by auto
next
  case (Cons c cs)
  obtain r s1 fx where st: "step_p2 c s = (r, s1, fx)" by (cases "step_p2 c s")
  with Cons.prems have "run_p2 cs s1 = Some s'" by (cases r) auto
  from Cons.IH [OF this] step_p2_set [OF st] show ?case by blast
qed

subsection \<open>Concrete runs\<close>

lemma Exit_main_srv_running:
  "Exit_main env_ok srv_running =
     (Success,
      srv_running\<lparr>running := False, sbProcess := None,
        statusChange := [''started'', ''exited'', ''stopped'']\<rparr>,
      [Log PLAIN ''Received exit command'', Kill 7 True, Log PLAIN ''Sing-Box stopped'',
       ExitAfter (1000 * 1000000)])"
  by (simp add: Exit_main_def srv_running_def broadcastStatus_main_def
      statusChannelCap_main_def stopSingBox_main_def env_ok_def)

lemma monitorProcess_p2_srv_running:
  "monitorProcess_p2 (Signaled 9) srv_running =
     (srv_running\<lparr>running := False, sbProcess := None,
        statusChange := [''started'', ''terminated'']\<rparr>,
      [Log ERROR ''Sing-Box exited unexpectedly: %v''])"
  by (simp add: monitorProcess_p2_def srv_running_def broadcastStatus_p2_def
      statusChannelCap_def)

lemma run_main_start_exit:
  "run_main [CallStart env_ok, CallExit env_ok] (NewServer ''/opt'') =
     Some (srv_running\<lparr>running := False, sbProcess := None,
             statusChange := [''started'', ''exited'', ''stopped'']\<rparr>)"
  by (simp add: srv_running_reached_main Exit_main_srv_running)

lemma run_p2_start_killed:
  "run_p2 [CallStart env_ok, MonitorWakes (Signaled 9)] (NewServer ''/opt'') =
     Some (srv_running\<lparr>running := False, sbProcess := None,
             statusChange := [''started'', ''terminated'']\<rparr>)"
  by (simp add: srv_running_reached_p2 monitorProcess_p2_srv_running)

subsection \<open>The stream loops\<close>

lemma loop_main_sent:
  "distinct_adj (lastStatus # fst (StreamStatus_loop_main lastStatus es))"
  by (induction lastStatus es rule: StreamStatus_loop_main.induct)
     (auto split: prod.splits)

lemma loop_p2_sent:
  "distinct_adj (lastStatus # fst (StreamStatus_loop_p2 env lastStatus es s))"
  by (induction env lastStatus es s rule: StreamStatus_loop_p2.induct)
     (auto split: prod.splits result.splits simp: Let_def)

lemma remdups_adj_Cons_tl: "remdups_adj (v # vs) = v # tl (remdups_adj (v # vs))"
  by (induction vs arbitrary: v) auto

lemma loop_main_all_sent:
  "fst (StreamStatus_loop_main lastStatus (map (\<lambda>v. Value v True) vs)) =
   tl (remdups_adj (lastStatus # vs))"
proof (induction vs arbitrary: lastStatus)
  case Nil
  then show ?case by simp
next
  case (Cons v vs)
  show ?case
  proof (cases "v = lastStatus")
    case True
    with Cons.IH [of lastStatus] show ?thesis by simp
  next
    case False
    then have "fst (StreamStatus_loop_main lastStatus (map (\<lambda>v. Value v True) (v # vs))) =
        v # fst (StreamStatus_loop_main v (map (\<lambda>v. Value v True) vs))"
      by (simp add: case_prod_beta)
    also have "\<dots> = v # tl (remdups_adj (v # vs))"
      by (simp only: Cons.IH)
    also have "\<dots> = remdups_adj (v # vs)"
      by (rule remdups_adj_Cons_tl [symmetric])
    also have "\<dots> = tl (remdups_adj (lastStatus # v # vs))"
      using False by simp
    finally show ?thesis .
  qed
qed

lemma loop_p2_all_sent:
  "fst (StreamStatus_loop_p2 env lastStatus (map (\<lambda>v. FromChan (Value v True)) vs) s) =
   tl (remdups_adj (lastStatus # vs))"
proof (induction vs arbitrary: lastStatus)
  case Nil
  then show ?case by simp
next
  case (Cons v vs)
  show ?case
  proof (cases "v = lastStatus")
    case True
    with Cons.IH [of lastStatus] show ?thesis by simp
  next
    case False
    then have "fst (StreamStatus_loop_p2 env lastStatus
                  (map (\<lambda>v. FromChan (Value v True)) (v # vs)) s) =
        v # fst (StreamStatus_loop_p2 env v (map (\<lambda>v. FromChan (Value v True)) vs) s)"
      by (simp add: case_prod_beta)
    also have "\<dots> = v # tl (remdups_adj (v # vs))"
      by (simp only: Cons.IH)
    also have "\<dots> = remdups_adj (v # vs)"
      by (rule remdups_adj_Cons_tl [symmetric])
    also have "\<dots> = tl (remdups_adj (lastStatus # v # vs))"
      using False by simp
    finally show ?thesis .
  qed
qed

subsection \<open>The stop path of part_002 while running\<close>





subsection \<open>The monitor after an unsolicited exit\<close>

text \<open>
  Claim C1, as amended. When the managed process ends while \<open>running\<close> holds and \<^verbatim>\<open>Wait\<close>
  returns an error (a non-zero exit status, or death by a signal), the monitor sets
  \<open>running\<close> to false, clears the handle and calls \<^verbatim>\<open>broadcastStatus\<close> once, with
  \<^verbatim>\<open>terminated\<close> in part_002 and with \<^verbatim>\<open>stopped\<close> in \<^verbatim>\<open>src/cmd/main.go\<close>: exactly one
  value is appended to the channel when it has room, none when it is full.
\<close>

theorem monitor_error_exit:
  "running s \<Longrightarrow> Cmd_Wait st \<noteq> None \<Longrightarrow>
   (case monitorProcess_p2 st s of (s', fx) \<Rightarrow>
      \<not> running s' \<and> sbProcess s' = None \<and>
      statusChange s' = (if length (statusChange s) < statusChannelCap
                        then statusChange s @ [''terminated''] else statusChange s)) \<and>
   (case monitorProcess_main st s of (s', fx) \<Rightarrow>
      \<not> running s' \<and> sbProcess s' = None \<and>
      statusChange s' = (if length (statusChange s) < statusChannelCap_main
                        then statusChange s @ [''stopped''] else statusChange s))"
proof -
  assume r: "running s" and w: "Cmd_Wait st \<noteq> None"
  obtain s2 fx2 where p2: "monitorProcess_p2 st s = (s2, fx2)"
    by (cases "monitorProcess_p2 st s")
  obtain s1 fx1 where m: "monitorProcess_main st s = (s1, fx1)"
    by (cases "monitorProcess_main st s")
  show ?thesis
    using monitorProcess_p2_error [OF r w p2] monitorProcess_main_error [OF r w m]
    by (simp add: p2 m)
qed

text \<open>The amended claim at a process that exits with status 1.\<close>

theorem monitor_error_exit_witness:
  "running srv_running \<and> Cmd_Wait (Exited 1) \<noteq> None \<and>
   monitorProcess_p2 (Exited 1) srv_running = 
     (srv_running\<lparr>running := False, sbProcess := None, statusChange := [''started'', ''terminated'']\<rparr>,
      [Log ERROR ''Sing-Box exited unexpectedly: %v'']) \<and>
   monitorProcess_main (Exited 1) srv_running = 
     (srv_running\<lparr>running := False, sbProcess := None, statusChange := [''started'', ''stopped'']\<rparr>,
      [Log PLAIN ''Sing-Box exited unexpectedly: %v''])"
  using monitor_error_exit[of srv_running "Exited 1"]
  by (simp add: srv_running_def monitorProcess_p2_def monitorProcess_main_def broadcastStatus_p2_def 
       broadcastStatus_main_def statusChannelCap_def statusChannelCap_main_def)

text \<open>
  The claim as stated fails for a process that exits with status 0: \<^verbatim>\<open>Wait\<close> returns nil,
  the guard \<^verbatim>\<open>err != nil\<close> is false, and the server stays \<open>running\<close> with its handle and
  publishes nothing. In \<^verbatim>\<open>src/cmd/main.go\<close> the event of an exit with status 1 is
  \<^verbatim>\<open>stopped\<close>, not \<^verbatim>\<open>terminated\<close>.
\<close>

theorem monitor_clean_exit_counterexample:
  "running srv_running \<and>
   monitorProcess_p2 (Exited 0) srv_running = (srv_running, []) \<and>
   monitorProcess_main (Exited 0) srv_running = (srv_running, []) \<and>
   statusChange (fst (monitorProcess_main (Exited 1) srv_running)) = [''started'', ''stopped'']"
  by (simp add: srv_running_def monitorProcess_p2_def monitorProcess_main_def
       broadcastStatus_main_def statusChannelCap_main_def)

subsection \<open>The status strings on the channel\<close>

text \<open>
  Claim C2, as amended. After every run from \<^verbatim>\<open>NewServer\<close> (any sequence of \<^verbatim>\<open>Start\<close>,
  \<^verbatim>\<open>Stop\<close>, \<^verbatim>\<open>Exit\<close>, monitor wake-ups, receptions and stream cancellations, in any
  environment) the server has not crashed and every value in the status channel is one of
  \<^verbatim>\<open>started\<close>, \<^verbatim>\<open>stopped\<close>, \<^verbatim>\<open>exited\<close> in \<^verbatim>\<open>src/cmd/main.go\<close>, and one of
  \<^verbatim>\<open>started\<close>, \<^verbatim>\<open>stopped\<close>, \<^verbatim>\<open>terminated\<close> in part_002. So every published status
  is in the claimed set extended by \<^verbatim>\<open>exited\<close>.
\<close>

theorem published_statuses:
  "(\<exists>s. run_main cs (NewServer d) = Some s \<and>
        set (statusChange s) \<subseteq> {''started'', ''stopped'', ''exited''}) \<and>
   (\<exists>s. run_p2 cs (NewServer d) = Some s \<and>
        set (statusChange s) \<subseteq> {''started'', ''stopped'', ''terminated''})"
proof -
  have h: "handle_ok (NewServer d)" by (simp add: handle_ok_def NewServer_def)
  obtain s1 where s1: "run_main cs (NewServer d) = Some s1"
    using run_main_handle [OF h] by blast
  obtain s2 where s2: "run_p2 cs (NewServer d) = Some s2"
    using run_p2_handle [OF h] by blast
  have e: "statusChange (NewServer d) = []" by (simp add: NewServer_def)
  from run_main_set [OF s1] run_p2_set [OF s2] s1 s2 show ?thesis
    by (simp add: e)
qed

text \<open>The amended claim at two concrete runs.\<close>

theorem published_statuses_witness:
  "run_main [CallStart env_ok, CallExit env_ok] (NewServer ''/opt'') =
     Some (srv_running\<lparr>running := False, sbProcess := None,
             statusChange := [''started'', ''exited'', ''stopped'']\<rparr>) \<and>
   set (statusChange (srv_running\<lparr>running := False, sbProcess := None,
             statusChange := [''started'', ''exited'', ''stopped'']\<rparr>))
     \<subseteq> {''started'', ''stopped'', ''exited''} \<and>
   run_p2 [CallStart env_ok, MonitorWakes (Signaled 9)] (NewServer ''/opt'') =
     Some (srv_running\<lparr>running := False, sbProcess := None,
             statusChange := [''started'', ''terminated'']\<rparr>) \<and>
   set (statusChange (srv_running\<lparr>running := False, sbProcess := None,
             statusChange := [''started'', ''terminated'']\<rparr>))
     \<subseteq> {''started'', ''stopped'', ''terminated''}"
proof -
  from published_statuses [of "[CallStart env_ok, CallExit env_ok]" "''/opt''"]
    run_main_start_exit
  have a: "set (statusChange (srv_running\<lparr>running := False, sbProcess := None,
             statusChange := [''started'', ''exited'', ''stopped'']\<rparr>))
     \<subseteq> {''started'', ''stopped'', ''exited''}"
    by auto
  from published_statuses [of "[CallStart env_ok, MonitorWakes (Signaled 9)]" "''/opt''"]
    run_p2_start_killed
  have b: "set (statusChange (srv_running\<lparr>running := False, sbProcess := None,
             statusChange := [''started'', ''terminated'']\<rparr>))
     \<subseteq> {''started'', ''stopped'', ''terminated''}"
    by auto
  from run_main_start_exit a run_p2_start_killed b show ?thesis by (intro conjI)
qed

text \<open>
  The claim as stated fails in \<^verbatim>\<open>src/cmd/main.go\<close>: \<^verbatim>\<open>Exit\<close> publishes \<^verbatim>\<open>exited\<close>, which
  is outside the claimed set.
\<close>

theorem exited_status_counterexample:
  "run_main [CallExit env_ok] (NewServer ''/opt'') =
     Some ((NewServer ''/opt'')\<lparr>statusChange := [''exited'']\<rparr>) \<and>
   ''exited'' \<notin> {''starting'', ''started'', ''stopping'', ''stopped'', ''terminated'', ''download-failed''}"
  by (simp add: Exit_main_def NewServer_def broadcastStatus_main_def statusChannelCap_main_def)

subsection \<open>Deduplication on the status stream\<close>

text \<open>
  Claim C7. Whatever the channel delivers to a \<^verbatim>\<open>StreamStatus\<close> call, and however the
  call ends, the list of the values sent to its client has no two adjacent equal elements,
  in both gRPC servers. When every send succeeds and the stream does not end, the values
  sent are the values received with adjacent repetitions removed, starting from the
  subscriber's own \<^verbatim>\<open>lastStatus\<close>, which is initially the empty string.
\<close>

theorem stream_no_adjacent_duplicates:
  "distinct_adj (fst (StreamStatus_main es)) \<and>
   distinct_adj (fst (StreamStatus_p2 env sel s)) \<and>
   fst (StreamStatus_main (map (\<lambda>v. Value v True) vs)) = tl (remdups_adj ([] # vs)) \<and>
   fst (StreamStatus_p2 env (map (\<lambda>v. FromChan (Value v True)) vs) s) = tl (remdups_adj ([] # vs))"
  using loop_main_sent [of "[]" es] loop_p2_sent [of "[]" env sel s]
    loop_main_all_sent [of "[]" vs] loop_p2_all_sent [of env "[]" vs s]
  by (auto simp: StreamStatus_main_def StreamStatus_p2_def dest: distinct_adj_ConsD)

subsection \<open>The handle under an interleaved Exit\<close>

lemma Exit_interleaved_main_alone: "Exit_interleaved_main env [] s = Exit_main env s"
proof -
  obtain s1 fx1 where b: "broadcastStatus_main ''exited'' s = (s1, fx1)"
    by (cases "broadcastStatus_main ''exited'' s")
  obtain r2 s2 fx2 where st: "stopSingBox_main env s1 = (r2, s2, fx2)"
    by (cases "stopSingBox_main env s1")
  show ?thesis
    by (cases r2)
       (simp_all add: Exit_interleaved_main_def Exit_check_main_def Exit_finish_main_def
          Exit_main_def b st Let_def)
qed

lemma Exit_interleaved_p2_alone: "Exit_interleaved_p2 env [] s = Exit_p2 env s"
proof -
  obtain r2 s2 fx2 where st: "stopSingBox_p2 env s = (r2, s2, fx2)"
    by (cases "stopSingBox_p2 env s")
  show ?thesis
    by (cases r2)
       (simp_all add: Exit_interleaved_p2_def Exit_check_p2_def Exit_finish_p2_def
          Exit_p2_def st Let_def)
qed

lemma Exit_check_main_srv_running:
  "Exit_check_main srv_running =
     (True, srv_running\<lparr>statusChange := [''started'', ''exited'']\<rparr>,
      [Log PLAIN ''Received exit command''])"
  by (simp add: Exit_check_main_def srv_running_def broadcastStatus_main_def
      statusChannelCap_main_def)

lemma Stop_main_after_exit_check:
  "Stop_main env_ok (srv_running\<lparr>statusChange := [''started'', ''exited'']\<rparr>) =
     (Success,
      srv_running\<lparr>sbProcess := None, running := False,
         statusChange := [''started'', ''exited'', ''stopped'']\<rparr>,
      [Kill 7 True, Log PLAIN ''Sing-Box stopped''])"
  by (simp add: Stop_main_def stopSingBox_main_def srv_running_def env_ok_def
      broadcastStatus_main_def statusChannelCap_main_def)

lemma monitor_main_after_exit_check:
  "monitorProcess_main (Exited 2) (srv_running\<lparr>statusChange := [''started'', ''exited'']\<rparr>) =
     (srv_running\<lparr>sbProcess := None, running := False,
         statusChange := [''started'', ''exited'', ''stopped'']\<rparr>,
      [Log PLAIN ''Sing-Box exited unexpectedly: %v''])"
  by (simp add: monitorProcess_main_def srv_running_def broadcastStatus_main_def
      statusChannelCap_main_def)

lemma Exit_finish_main_no_handle:
  "Exit_finish_main env_ok True
     (srv_running\<lparr>sbProcess := None, running := False,
         statusChange := [''started'', ''exited'', ''stopped'']\<rparr>) =
     (Panic,
      srv_running\<lparr>sbProcess := None, running := False,
         statusChange := [''started'', ''exited'', ''stopped'']\<rparr>, [])"
  by (simp add: Exit_finish_main_def stopSingBox_main_def srv_running_def)

lemma Exit_interleaved_main_stop:
  "Exit_interleaved_main env_ok [CallStop env_ok] srv_running =
     (Panic,
      srv_running\<lparr>sbProcess := None, running := False,
         statusChange := [''started'', ''exited'', ''stopped'']\<rparr>,
      [Log PLAIN ''Received exit command''])"
  by (simp add: Exit_interleaved_main_def Exit_check_main_srv_running
      Stop_main_after_exit_check Exit_finish_main_no_handle)

lemma Exit_interleaved_main_monitor:
  "Exit_interleaved_main env_ok [MonitorWakes (Exited 2)] srv_running =
     (Panic,
      srv_running\<lparr>sbProcess := None, running := False,
         statusChange := [''started'', ''exited'', ''stopped'']\<rparr>,
      [Log PLAIN ''Received exit command''])"
  by (simp add: Exit_interleaved_main_def Exit_check_main_srv_running
      monitor_main_after_exit_check Exit_finish_main_no_handle)

lemma Stop_p2_srv_running:
  "Stop_p2 env_ok srv_running =
     (Success,
      srv_running\<lparr>sbProcess := None, running := False,
         statusChange := [''started'', ''stopped'']\<rparr>,
      [Kill 7 True, Log INFO ''Sing-Box stopped''])"
  by (simp add: Stop_p2_def stopSingBox_p2_def srv_running_def env_ok_def
      broadcastStatus_p2_def statusChannelCap_def)

lemma Exit_interleaved_p2_stop:
  "Exit_interleaved_p2 env_ok [CallStop env_ok] srv_running =
     (Success,
      srv_running\<lparr>sbProcess := None, running := False,
         statusChange := [''started'', ''stopped'']\<rparr>,
      [Log INFO ''Exiting Oblivion-Helper...'', Log ERROR ''Exit stop error: %v'',
       ExitAfter gracefulShutdownTimeout])"
proof -
  have c: "Exit_check_p2 srv_running =
      (True, srv_running, [Log INFO ''Exiting Oblivion-Helper...''])"
    by (simp add: Exit_check_p2_def srv_running_def)
  have f: "Exit_finish_p2 env_ok True
     (srv_running\<lparr>sbProcess := None, running := False,
         statusChange := [''started'', ''stopped'']\<rparr>) =
     (Success,
      srv_running\<lparr>sbProcess := None, running := False,
         statusChange := [''started'', ''stopped'']\<rparr>,
      [Log ERROR ''Exit stop error: %v'', ExitAfter gracefulShutdownTimeout])"
    by (simp add: Exit_finish_p2_def stopSingBox_p2_def srv_running_def)
  show ?thesis
    by (simp add: Exit_interleaved_p2_def c Stop_p2_srv_running f)
qed

lemma run_main_start: "run_main [CallStart env_ok] (NewServer ''/opt'') = Some srv_running"
  by (simp add: srv_running_reached_main)

text \<open>
  Claim C9. The claim is that \<open>running\<close> implies a non-nil handle after every operation,
  so that the dereference \<^verbatim>\<open>s.sbProcess.Process.Kill()\<close> of the stop path never meets a nil
  handle once \<open>running\<close> has been tested. \<^verbatim>\<open>src/cmd/main.go\<close> breaks it: from the server reached
  by one successful \<^verbatim>\<open>Start\<close>, where the invariant holds, \<^verbatim>\<open>Exit\<close> reads \<open>running = True\<close>;
  a \<^verbatim>\<open>Stop\<close> call, or the monitor after an exit with status 2, then clears the handle
  under the mutex, and the \<^verbatim>\<open>stopSingBox\<close> of \<^verbatim>\<open>Exit\<close> panics on the nil handle. At the
  same interleaving \<^verbatim>\<open>Exit\<close> of part_002 does not panic, because its \<^verbatim>\<open>stopSingBox\<close>
  takes the mutex and tests \<open>running\<close> again.
\<close>

theorem exit_race_nil_handle:
  "run_main [CallStart env_ok] (NewServer ''/opt'') = Some srv_running \<and>
   running srv_running \<and>
   sbProcess srv_running =
     Some \<lparr>Path = ''/opt/sing-box'',
           Args = [''/opt/sing-box'', ''run'', ''-c'', ''/opt/sb.json''], Process = Some 7\<rparr> \<and>
   fst (Exit_check_main srv_running) = True \<and>
   Exit_interleaved_main env_ok [CallStop env_ok] srv_running =
     (Panic,
      srv_running\<lparr>sbProcess := None, running := False,
         statusChange := [''started'', ''exited'', ''stopped'']\<rparr>,
      [Log PLAIN ''Received exit command'']) \<and>
   Exit_interleaved_main env_ok [MonitorWakes (Exited 2)] srv_running =
     (Panic,
      srv_running\<lparr>sbProcess := None, running := False,
         statusChange := [''started'', ''exited'', ''stopped'']\<rparr>,
      [Log PLAIN ''Received exit command'']) \<and>
   Exit_interleaved_p2 env_ok [CallStop env_ok] srv_running =
     (Success,
      srv_running\<lparr>sbProcess := None, running := False,
         statusChange := [''started'', ''stopped'']\<rparr>,
      [Log INFO ''Exiting Oblivion-Helper...'', Log ERROR ''Exit stop error: %v'',
       ExitAfter gracefulShutdownTimeout])"
proof -
  have r: "running srv_running" by (simp add: srv_running_def)
  have h: "sbProcess srv_running =
     Some \<lparr>Path = ''/opt/sing-box'',
           Args = [''/opt/sing-box'', ''run'', ''-c'', ''/opt/sb.json''], Process = Some 7\<rparr>"
    by (simp add: srv_running_def)
  have c: "fst (Exit_check_main srv_running) = True"
    by (simp add: Exit_check_main_srv_running)
  from run_main_start r h c Exit_interleaved_main_stop Exit_interleaved_main_monitor
    Exit_interleaved_p2_stop
  show ?thesis by (intro conjI)
qed

subsection \<open>Cancellation of a status stream\<close>



lemma stream_pending_srv_running:
  "StreamStatus_loop_p2 env_ok ''started'' [FromChan (Value ''stopped'' False)] srv_running =
     ([], Some (Failure (Plain ''send'')), srv_running,
      [Log ERROR ''Status stream error: %v''])"
  by simp




subsection \<open>Reading and accepting commands\<close>

lemma Scan_Token:
  "Scan bytes = Token text \<Longrightarrow> text = dropCR (takeWhile (\<lambda>c. c \<noteq> CHR 0x0A) bytes)"
proof -
  assume a: "Scan bytes = Token text"
  show ?thesis
  proof (cases "CHR 0x0A \<in> set (take MaxScanTokenSize bytes)")
    case True
    with a show ?thesis by (auto simp: Scan_def split: if_splits)
  next
    case False
    with a have s: "length bytes < MaxScanTokenSize" and t: "text = dropCR bytes"
      by (auto simp: Scan_def split: if_splits)
    from s False have "CHR 0x0A \<notin> set bytes" by simp
    then have tw: "takeWhile (\<lambda>c. c \<noteq> CHR 0x0A) bytes = bytes"
      by auto
    show ?thesis by (simp only: t tw)
  qed
qed

lemma readCommandFromFile_command:
  "readCommandFromFile strings f = (command, None) \<Longrightarrow> command \<noteq> [] \<Longrightarrow>
   \<exists>bytes. f = Contents bytes \<and>
     command =
       ToLower strings (TrimSpace strings (dropCR (takeWhile (\<lambda>c. c \<noteq> CHR 0x0A) bytes)))"
  by (auto simp: readCommandFromFile_def split: file_read.splits scan.splits
      dest!: Scan_Token)

lemma watch_tick_accepts:
  "watch_tick strings lastModTime t = (l, Some command, fx) \<Longrightarrow>
   \<exists>modTime bytes. stat t = StatOk modTime \<and> lastModTime < modTime \<and> l = modTime \<and>
      opened t = Contents bytes \<and>
      command =
        ToLower strings (TrimSpace strings (dropCR (takeWhile (\<lambda>c. c \<noteq> CHR 0x0A) bytes))) \<and>
      command \<noteq> []"
  by (auto simp: watch_tick_def split: stat_result.splits if_splits prod.splits
      dest!: readCommandFromFile_command)

lemma watch_tick_rejects:
  "watch_tick strings lastModTime t = (l, None, fx) \<Longrightarrow> l = lastModTime"
  by (auto simp: watch_tick_def split: stat_result.splits if_splits prod.splits)

lemma watch_loop_later:
  "(mt, c) \<in> set (watch_loop strings lastModTime ts) \<Longrightarrow> lastModTime < mt"
proof (induction ts arbitrary: lastModTime)
  case Nil
  then show ?case by simp
next
  case (Cons t ts)
  obtain l r fx where w: "watch_tick strings lastModTime t = (l, r, fx)"
    by (cases "watch_tick strings lastModTime t")
  show ?case
  proof (cases r)
    case None
    with w watch_tick_rejects [of strings lastModTime t l fx] have "l = lastModTime" by simp
    with Cons w None show ?thesis by auto
  next
    case (Some command)
    with w watch_tick_accepts [of strings lastModTime t l command fx]
    have "lastModTime < l" by auto
    with Cons.prems Cons.IH [of l] w Some show ?thesis by fastforce
  qed
qed

lemma watch_loop_increasing:
  "sorted_wrt (<) (map fst (watch_loop strings lastModTime ts))"
proof (induction ts arbitrary: lastModTime)
  case Nil
  then show ?case by simp
next
  case (Cons t ts)
  obtain l r fx where w: "watch_tick strings lastModTime t = (l, r, fx)"
    by (cases "watch_tick strings lastModTime t")
  show ?case
  proof (cases r)
    case None
    with Cons.IH [of l] w show ?thesis by simp
  next
    case (Some command)
    with Cons.IH [of l] w watch_loop_later [of _ _ strings l ts] show ?thesis by auto
  qed
qed

lemma processCommand_oh_unknown:
  "command \<noteq> ''start'' \<Longrightarrow> command \<noteq> ''stop'' \<Longrightarrow> command \<noteq> ''exit'' \<Longrightarrow>
   processCommand_oh env command m =
     (Returns, m, [Log INFO ''processCommand: Processing command: %s'',
                   Log WARN ''processCommand: Unknown command: %s''])"
  by (simp add: processCommand_oh_def)

lemma main_loop_oh_unknown:
  "command \<noteq> ''start'' \<Longrightarrow> command \<noteq> ''stop'' \<Longrightarrow> command \<noteq> ''exit'' \<Longrightarrow>
   main_loop_oh ((env, command) # rest) m =
     (case main_loop_oh rest m of
        (e, m2, fx2) \<Rightarrow>
          (e, m2, [Log INFO ''processCommand: Processing command: %s'',
                   Log WARN ''processCommand: Unknown command: %s''] @ fx2))"
  by (simp add: processCommand_oh_unknown)

lemma watch_tick_start: "watch_tick strings_ascii 0 tick_start = (5, Some ''start'', [])"
  by (simp add: watch_tick_def tick_start_def readCommandFromFile_def Scan_def
      MaxScanTokenSize_def dropCR_def strings_ascii_def toLower_ascii_def isSpace_ascii_def
      char_of_def bit_Suc_0_iff)

lemma watch_tick_same_time: "watch_tick strings_ascii 5 tick_start = (5, None, [])"
  by (simp add: watch_tick_def tick_start_def)

lemma watch_tick_bogus: "watch_tick strings_ascii 5 tick_bogus = (6, Some ''bogus'', [])"
  by (simp add: watch_tick_def tick_bogus_def readCommandFromFile_def Scan_def
      MaxScanTokenSize_def dropCR_def strings_ascii_def toLower_ascii_def isSpace_ascii_def
      char_of_def bit_Suc_0_iff)

lemma watch_loop_example:
  "watch_loop strings_ascii 0 [tick_start, tick_start, tick_bogus] =
     [(5, ''start''), (6, ''bogus'')]"
  by (simp add: watch_tick_start watch_tick_same_time watch_tick_bogus)

subsection \<open>The polled command file\<close>

text \<open>
  Claim C8. In the first program of \<^verbatim>\<open>src/cmd/oblivion-helper.go\<close>, whatever
  \<^verbatim>\<open>strings.TrimSpace\<close> and \<^verbatim>\<open>strings.ToLower\<close> compute, a tick of \<^verbatim>\<open>watchCommandFile\<close>
  accepts a command only when \<^verbatim>\<open>os.Stat\<close> succeeds with a modification time strictly later
  than \<^verbatim>\<open>lastModTime\<close>, which then becomes that time and is otherwise unchanged; so the
  accepted modification times increase strictly. The accepted command is
  \<^verbatim>\<open>ToLower(TrimSpace(line))\<close> for the first line of the file as the scanner yields it
  (the bytes before the first line feed, without a trailing carriage return), and is not
  empty. A command other than \<^verbatim>\<open>start\<close>, \<^verbatim>\<open>stop\<close> and \<^verbatim>\<open>exit\<close> is logged as unknown,
  leaves the manager unchanged, and the loop of \<^verbatim>\<open>main\<close> goes on with the next command.
\<close>

theorem command_file_source:
  "(watch_tick strings lastModTime t = (l, Some command, fx) \<longrightarrow>
      (\<exists>modTime bytes. stat t = StatOk modTime \<and> lastModTime < modTime \<and> l = modTime \<and>
         opened t = Contents bytes \<and>
         command =
           ToLower strings
             (TrimSpace strings (dropCR (takeWhile (\<lambda>c. c \<noteq> CHR 0x0A) bytes))) \<and>
         command \<noteq> [])) \<and>
   (watch_tick strings lastModTime t = (l, None, fx) \<longrightarrow> l = lastModTime) \<and>
   sorted_wrt (<) (lastModTime # map fst (watch_loop strings lastModTime ts)) \<and>
   (c \<noteq> ''start'' \<and> c \<noteq> ''stop'' \<and> c \<noteq> ''exit'' \<longrightarrow>
      processCommand_oh env c m =
        (Returns, m, [Log INFO ''processCommand: Processing command: %s'',
                      Log WARN ''processCommand: Unknown command: %s'']) \<and>
      main_loop_oh ((env, c) # rest) m =
        (case main_loop_oh rest m of
           (e, m2, fx2) \<Rightarrow>
             (e, m2, [Log INFO ''processCommand: Processing command: %s'',
                      Log WARN ''processCommand: Unknown command: %s''] @ fx2)))"
proof -
  have a: "sorted_wrt (<) (lastModTime # map fst (watch_loop strings lastModTime ts))"
    using watch_loop_increasing [of strings lastModTime ts]
      watch_loop_later [of _ _ strings lastModTime ts]
    by auto
  show ?thesis
    using a watch_tick_accepts [of strings lastModTime t l command fx]
      watch_tick_rejects [of strings lastModTime t l fx]
      processCommand_oh_unknown [of c env m] main_loop_oh_unknown [of c env rest m]
    by blast
qed

text \<open>The claim at three ticks of ASCII text and at the unknown token \<^verbatim>\<open>bogus\<close>.\<close>

theorem command_file_source_witness:
  "watch_tick strings_ascii 0 tick_start = (5, Some ''start'', []) \<and>
   watch_tick strings_ascii 5 tick_start = (5, None, []) \<and>
   watch_loop strings_ascii 0 [tick_start, tick_start, tick_bogus] =
     [(5, ''start''), (6, ''bogus'')] \<and>
   sorted_wrt (<) [0, 5, 6 :: int] \<and>
   processCommand_oh menv_linux ''bogus'' mgr_running =
     (Returns, mgr_running, [Log INFO ''processCommand: Processing command: %s'',
                             Log WARN ''processCommand: Unknown command: %s''])"
proof -
  have n: "''bogus'' \<noteq> ''start'' \<and> ''bogus'' \<noteq> ''stop'' \<and> ''bogus'' \<noteq> ''exit''" by simp
  from command_file_source [of strings_ascii 0 tick_start 5 "''start''" "[]"
      "[tick_start, tick_start, tick_bogus]" "''bogus''" menv_linux mgr_running "[]"] n
  have "processCommand_oh menv_linux ''bogus'' mgr_running =
     (Returns, mgr_running, [Log INFO ''processCommand: Processing command: %s'',
                             Log WARN ''processCommand: Unknown command: %s''])"
    and "sorted_wrt (<)
           (0 # map fst (watch_loop strings_ascii 0 [tick_start, tick_start, tick_bogus]))"
    by blast+
  then show ?thesis
    using watch_tick_start watch_tick_same_time watch_loop_example by simp
qed

subsection \<open>The stop paths case by case\<close>

lemma stopSingBox_p3_ignored:
  "singBoxProcess m = Some c \<Longrightarrow> Process c = Some p \<Longrightarrow> GOOS env \<noteq> ''windows'' \<Longrightarrow>
   proc_signal env p \<Longrightarrow> select_p3 env p = TimerFired \<Longrightarrow>
   stopSingBox_p3 env m =
     (if m_proc_kill env p
      then (Success, m\<lparr>singBoxProcess := None\<rparr>,
            [Signal p True, Go ''singBoxProcess.Wait'', Kill p True,
             Log PLAIN ''Sing-Box stopped.''])
      else (Failure (Plain ''failed to stop Sing-Box: %w''), m,
            [Signal p True, Go ''singBoxProcess.Wait'', Kill p False]))"
  by (simp add: stopSingBox_p3_def)

lemma stopSingBox_p3_exited:
  "singBoxProcess m = Some c \<Longrightarrow> Process c = Some p \<Longrightarrow> GOOS env \<noteq> ''windows'' \<Longrightarrow>
   proc_signal env p \<Longrightarrow> select_p3 env p = WaitReturned err \<Longrightarrow>
   stopSingBox_p3 env m =
     (if err = None
      then (Success, m\<lparr>singBoxProcess := None\<rparr>,
            [Signal p True, Go ''singBoxProcess.Wait'', Log PLAIN ''Sing-Box stopped.''])
      else (Failure (Plain ''failed to stop Sing-Box: %w''), m,
            [Signal p True, Go ''singBoxProcess.Wait'']))"
  by (simp add: stopSingBox_p3_def)

lemma stopSingBox_p3_windows:
  "singBoxProcess m = Some c \<Longrightarrow> Process c = Some p \<Longrightarrow> GOOS env = ''windows'' \<Longrightarrow>
   stopSingBox_p3 env m =
     (if m_proc_kill env p
      then (Success, m\<lparr>singBoxProcess := None\<rparr>, [Kill p True, Log PLAIN ''Sing-Box stopped.''])
      else (Failure (Plain ''failed to stop Sing-Box: %w''), m, [Kill p False]))"
  by (simp add: stopSingBox_p3_def)

lemma select_p3_cases:
  "(exit_delay env p = None \<longrightarrow> select_p3 env p = TimerFired) \<and>
   (\<forall>d. exit_delay env p = Some d \<longrightarrow>
      (d < 5 * Second \<longrightarrow> select_p3 env p = WaitReturned (Cmd_Wait (exit_how env p))) \<and>
      (5 * Second < d \<longrightarrow> select_p3 env p = TimerFired))"
  by (simp add: select_p3_def)

lemma stopSingBox_main_kills:
  "sbProcess s = Some c \<Longrightarrow> Process c = Some p \<Longrightarrow>
   stopSingBox_main genv s =
     (if proc_kill genv p
      then (Success, fst (broadcastStatus_main ''stopped'' (s\<lparr>sbProcess := None, running := False\<rparr>)),
            [Kill p True] @ snd (broadcastStatus_main ''stopped'' (s\<lparr>sbProcess := None, running := False\<rparr>))
              @ [Log PLAIN ''Sing-Box stopped''])
      else (Failure (Plain ''kill''), s, [Kill p False]))"
  by (simp add: stopSingBox_main_def split: prod.splits)

lemma Stop_main_srv_running:
  "Stop_main env_ok srv_running =
     (Success,
      srv_running\<lparr>sbProcess := None, running := False,
         statusChange := [''started'', ''stopped'']\<rparr>,
      [Kill 7 True, Log PLAIN ''Sing-Box stopped''])"
  by (simp add: Stop_main_def stopSingBox_main_def srv_running_def env_ok_def
      broadcastStatus_main_def statusChannelCap_main_def)

subsection \<open>The stop path: signal, grace period, kill\<close>

text \<open>
  Claim C4, as amended. In the command-file variant part_003, for a started process: on a
  target other than Windows whose \<^verbatim>\<open>SIGTERM\<close> is delivered, the stop path signals first;
  when the process does not end within 5 seconds (it ignores the signal, or ends later)
  the stop path kills it, and then succeeds with the handle cleared if the kill succeeds
  and fails with the handle kept if it does not; when the process ends within 5 seconds
  there is no kill. On Windows the kill is immediate, with no signal. In the gRPC server
  \<^verbatim>\<open>src/cmd/main.go\<close> the stop path kills at once on every target and never signals.
\<close>

theorem stop_path_grace:
  "singBoxProcess m = Some c \<Longrightarrow> Process c = Some p \<Longrightarrow>
   (GOOS env \<noteq> ''windows'' \<and> proc_signal env p \<longrightarrow>
      (exit_delay env p = None \<or> (\<exists>d. exit_delay env p = Some d \<and> 5 * Second < d) \<longrightarrow>
         stopSingBox_p3 env m =
           (if m_proc_kill env p
            then (Success, m\<lparr>singBoxProcess := None\<rparr>,
                  [Signal p True, Go ''singBoxProcess.Wait'', Kill p True,
                   Log PLAIN ''Sing-Box stopped.''])
            else (Failure (Plain ''failed to stop Sing-Box: %w''), m,
                  [Signal p True, Go ''singBoxProcess.Wait'', Kill p False]))) \<and>
      (\<forall>d. exit_delay env p = Some d \<and> d < 5 * Second \<longrightarrow>
         stopSingBox_p3 env m =
           (if Cmd_Wait (exit_how env p) = None
            then (Success, m\<lparr>singBoxProcess := None\<rparr>,
                  [Signal p True, Go ''singBoxProcess.Wait'', Log PLAIN ''Sing-Box stopped.''])
            else (Failure (Plain ''failed to stop Sing-Box: %w''), m,
                  [Signal p True, Go ''singBoxProcess.Wait''])))) \<and>
   (GOOS env = ''windows'' \<longrightarrow>
      stopSingBox_p3 env m =
        (if m_proc_kill env p
         then (Success, m\<lparr>singBoxProcess := None\<rparr>, [Kill p True, Log PLAIN ''Sing-Box stopped.''])
         else (Failure (Plain ''failed to stop Sing-Box: %w''), m, [Kill p False]))) \<and>
   (sbProcess s = Some c \<longrightarrow>
      (\<exists>fx. snd (snd (stopSingBox_main genv s)) = Kill p (proc_kill genv p) # fx \<and>
            (\<forall>q ok. Signal q ok \<notin> set fx)))"
proof -
  assume h: "singBoxProcess m = Some c" and pc: "Process c = Some p"
  have main: "sbProcess s = Some c \<longrightarrow>
      (\<exists>fx. snd (snd (stopSingBox_main genv s)) = Kill p (proc_kill genv p) # fx \<and>
            (\<forall>q ok. Signal q ok \<notin> set fx))"
  proof
    assume sp: "sbProcess s = Some c"
    show "\<exists>fx. snd (snd (stopSingBox_main genv s)) = Kill p (proc_kill genv p) # fx \<and>
            (\<forall>q ok. Signal q ok \<notin> set fx)"
      by (auto simp: stopSingBox_main_kills [OF sp pc] broadcastStatus_main_def)
  qed
  have win: "GOOS env = ''windows'' \<longrightarrow>
      stopSingBox_p3 env m =
        (if m_proc_kill env p
         then (Success, m\<lparr>singBoxProcess := None\<rparr>, [Kill p True, Log PLAIN ''Sing-Box stopped.''])
         else (Failure (Plain ''failed to stop Sing-Box: %w''), m, [Kill p False]))"
    using stopSingBox_p3_windows [OF h pc] by blast
  have posix: "GOOS env \<noteq> ''windows'' \<and> proc_signal env p \<longrightarrow>
      (exit_delay env p = None \<or> (\<exists>d. exit_delay env p = Some d \<and> 5 * Second < d) \<longrightarrow>
         stopSingBox_p3 env m =
           (if m_proc_kill env p
            then (Success, m\<lparr>singBoxProcess := None\<rparr>,
                  [Signal p True, Go ''singBoxProcess.Wait'', Kill p True,
                   Log PLAIN ''Sing-Box stopped.''])
            else (Failure (Plain ''failed to stop Sing-Box: %w''), m,
                  [Signal p True, Go ''singBoxProcess.Wait'', Kill p False]))) \<and>
      (\<forall>d. exit_delay env p = Some d \<and> d < 5 * Second \<longrightarrow>
         stopSingBox_p3 env m =
           (if Cmd_Wait (exit_how env p) = None
            then (Success, m\<lparr>singBoxProcess := None\<rparr>,
                  [Signal p True, Go ''singBoxProcess.Wait'', Log PLAIN ''Sing-Box stopped.''])
            else (Failure (Plain ''failed to stop Sing-Box: %w''), m,
                  [Signal p True, Go ''singBoxProcess.Wait''])))"
  proof (intro impI conjI allI)
    assume a: "GOOS env \<noteq> ''windows'' \<and> proc_signal env p"
      and b: "exit_delay env p = None \<or> (\<exists>d. exit_delay env p = Some d \<and> 5 * Second < d)"
    from b select_p3_cases [of env p] have "select_p3 env p = TimerFired" by auto
    with a stopSingBox_p3_ignored [OF h pc] show "stopSingBox_p3 env m =
           (if m_proc_kill env p
            then (Success, m\<lparr>singBoxProcess := None\<rparr>,
                  [Signal p True, Go ''singBoxProcess.Wait'', Kill p True,
                   Log PLAIN ''Sing-Box stopped.''])
            else (Failure (Plain ''failed to stop Sing-Box: %w''), m,
                  [Signal p True, Go ''singBoxProcess.Wait'', Kill p False]))" by blast
  next
    fix d
    assume a: "GOOS env \<noteq> ''windows'' \<and> proc_signal env p"
      and b: "exit_delay env p = Some d \<and> d < 5 * Second"
    from b select_p3_cases [of env p]
    have "select_p3 env p = WaitReturned (Cmd_Wait (exit_how env p))" by auto
    with a stopSingBox_p3_exited [OF h pc, of env "Cmd_Wait (exit_how env p)"]
    show "stopSingBox_p3 env m =
           (if Cmd_Wait (exit_how env p) = None
            then (Success, m\<lparr>singBoxProcess := None\<rparr>,
                  [Signal p True, Go ''singBoxProcess.Wait'', Log PLAIN ''Sing-Box stopped.''])
            else (Failure (Plain ''failed to stop Sing-Box: %w''), m,
                  [Signal p True, Go ''singBoxProcess.Wait'']))" by blast
  qed
  from posix win main show ?thesis by blast
qed

text \<open>The amended claim at a process that ignores the signal, on Linux and on Windows.\<close>

theorem stop_path_grace_witness:
  "singBoxProcess mgr_running = Some \<lparr>Path = ''/opt/sing-box'',
       Args = [''/opt/sing-box'', ''run'', ''-c'', ''/opt/sb.json''], Process = Some 7\<rparr> \<and>
   GOOS menv_linux \<noteq> ''windows'' \<and> proc_signal menv_linux 7 \<and>
   exit_delay menv_linux 7 = None \<and> m_proc_kill menv_linux 7 \<and>
   stopSingBox_p3 menv_linux mgr_running =
     (Success, mgr_running\<lparr>singBoxProcess := None\<rparr>,
      [Signal 7 True, Go ''singBoxProcess.Wait'', Kill 7 True, Log PLAIN ''Sing-Box stopped.'']) \<and>
   GOOS menv_windows = ''windows'' \<and>
   stopSingBox_p3 menv_windows mgr_running =
     (Success, mgr_running\<lparr>singBoxProcess := None\<rparr>,
      [Kill 7 True, Log PLAIN ''Sing-Box stopped.''])"
proof -
  have h: "singBoxProcess mgr_running = Some \<lparr>Path = ''/opt/sing-box'',
       Args = [''/opt/sing-box'', ''run'', ''-c'', ''/opt/sb.json''], Process = Some 7\<rparr>"
    by (simp add: mgr_running_def)
  have p: "Process \<lparr>Path = ''/opt/sing-box'',
       Args = [''/opt/sing-box'', ''run'', ''-c'', ''/opt/sb.json''], Process = Some 7\<rparr> = Some 7"
    by simp
  have e: "GOOS menv_linux \<noteq> ''windows'' \<and> proc_signal menv_linux 7 \<and>
      exit_delay menv_linux 7 = None \<and> m_proc_kill menv_linux 7"
    by (simp add: menv_linux_def)
  have w: "GOOS menv_windows = ''windows'' \<and> m_proc_kill menv_windows 7"
    by (simp add: menv_windows_def menv_linux_def)
  from stop_path_grace [OF h p, of menv_linux] e
  have l: "stopSingBox_p3 menv_linux mgr_running =
     (Success, mgr_running\<lparr>singBoxProcess := None\<rparr>,
      [Signal 7 True, Go ''singBoxProcess.Wait'', Kill 7 True, Log PLAIN ''Sing-Box stopped.''])"
    by simp
  from stop_path_grace [OF h p, of menv_windows] w
  have "stopSingBox_p3 menv_windows mgr_running =
     (Success, mgr_running\<lparr>singBoxProcess := None\<rparr>,
      [Kill 7 True, Log PLAIN ''Sing-Box stopped.''])"
    by simp
  with h e w l show ?thesis by blast
qed

text \<open>
  The claim as stated fails in \<^verbatim>\<open>src/cmd/main.go\<close>, whose stop path sends no termination
  signal and waits for nothing on any target; and in part_003 a \<^verbatim>\<open>Stop\<close> on a process that
  ignores the signal does not reach the stopped state when the kill fails.
\<close>

theorem stop_path_no_signal_counterexample:
  "Stop_main env_ok srv_running =
     (Success,
      srv_running\<lparr>sbProcess := None, running := False,
         statusChange := [''started'', ''stopped'']\<rparr>,
      [Kill 7 True, Log PLAIN ''Sing-Box stopped'']) \<and>
   Signal 7 True \<notin> set [Kill 7 True, Log PLAIN ''Sing-Box stopped''] \<and>
   stopSingBox_p3 (menv_linux\<lparr>m_proc_kill := (\<lambda>p. False)\<rparr>) mgr_running =
     (Failure (Plain ''failed to stop Sing-Box: %w''), mgr_running,
      [Signal 7 True, Go ''singBoxProcess.Wait'', Kill 7 False]) \<and>
   singBoxProcess mgr_running \<noteq> None"
proof -
  have a: "Signal 7 True \<notin> set [Kill 7 True, Log PLAIN ''Sing-Box stopped'']" by simp
  have b: "stopSingBox_p3 (menv_linux\<lparr>m_proc_kill := (\<lambda>p. False)\<rparr>) mgr_running =
     (Failure (Plain ''failed to stop Sing-Box: %w''), mgr_running,
      [Signal 7 True, Go ''singBoxProcess.Wait'', Kill 7 False])"
    by (simp add: stopSingBox_p3_def menv_linux_def mgr_running_def select_p3_def)
  have c: "singBoxProcess mgr_running \<noteq> None" by (simp add: mgr_running_def)
  from Stop_main_srv_running a b c show ?thesis by (intro conjI)
qed

end
